theory Spec2Isabelle
  imports Complex_Main
begin

section \<open>Numbers and records\<close>

text \<open>
  The scripts compute with JavaScript numbers.  Every number that enters a script is
  finite (JSON numbers, \<^verbatim>\<open>window.innerWidth\<close>, literals), and the only non-finite value
  a script can produce from them is \<^verbatim>\<open>NaN\<close>, which appears when an \<^verbatim>\<open>undefined\<close> extent is
  coerced to a scale domain.  A number is therefore a real or \<^verbatim>\<open>NaN\<close>; rounding of
  doubles is not modelled.  (An infinite tick increment can appear inside the niceing of
  a scale; it has a type of its own below and never leaves the niceing.)
\<close>

datatype jsnum = Fin real | NaN

text \<open>Arithmetic with a finite operand: \<^verbatim>\<open>NaN\<close> is propagated.\<close>

fun js_map :: "(real \<Rightarrow> real) \<Rightarrow> jsnum \<Rightarrow> jsnum" where
  "js_map f (Fin x) = Fin (f x)"
| "js_map f NaN = NaN"

text \<open>\<^verbatim>\<open>a < b\<close>: false as soon as one side is \<^verbatim>\<open>NaN\<close>.\<close>

fun js_lt :: "jsnum \<Rightarrow> jsnum \<Rightarrow> bool" where
  "js_lt (Fin a) (Fin b) = (a < b)"
| "js_lt NaN b = False"
| "js_lt (Fin a) NaN = False"

text \<open>
  One element of \<^verbatim>\<open>my_weather_data.json\<close>: the fields the scatterplot scripts read.
\<close>

record weather =
  dewPoint :: real
  humidity :: real
  cloudCover :: real
  date :: string

definition xAccessor :: "weather \<Rightarrow> real" where
  "xAccessor d = dewPoint d"

definition yAccessor :: "weather \<Rightarrow> real" where
  "yAccessor d = humidity d"

text \<open>The third accessor is named \<^verbatim>\<open>coverAccessor\<close> in \<^verbatim>\<open>part_001\<close>.\<close>

definition colorAccessor :: "weather \<Rightarrow> real" where
  "colorAccessor d = cloudCover d"

section \<open>Chart dimensions\<close>

text \<open>
  Modelled from the spec: \<^verbatim>\<open>d3.min\<close> is a library function that is not part of the
  sources.  On an array of numbers it keeps the first value and replaces it by every
  later value that is smaller.  The array literal of the scripts is never empty, so the
  array is given as its first element and the rest.
\<close>

definition d3_min :: "real \<Rightarrow> real list \<Rightarrow> real" where
  "d3_min v vs = fold (\<lambda>value m. if m > value then value else m) vs v"

record margin =
  top :: real
  right :: real
  bottom :: real
  left :: real

record dimensions =
  width :: real
  height :: real
  margin :: margin
  boundedWidth :: real
  boundedHeight :: real

text \<open>
  \<^verbatim>\<open>const width = d3.min([window.innerWidth * 0.9, window.innerHeight * 0.9])\<close>, the
  object literal \<^verbatim>\<open>dimensions\<close> and the two assignments that follow it.  The scripts
  differ only in the margin literal.
\<close>

definition chart_dimensions :: "margin \<Rightarrow> real \<Rightarrow> real \<Rightarrow> dimensions" where
  "chart_dimensions m innerWidth innerHeight =
     (let w = d3_min (innerWidth * 0.9) [innerHeight * 0.9] in
      \<lparr> width = w, height = w, margin = m,
        boundedWidth = w - left m - right m,
        boundedHeight = w - top m - bottom m \<rparr>)"

text \<open>The margin literal of \<^verbatim>\<open>part_000\<close>, \<^verbatim>\<open>part_001\<close> and \<^verbatim>\<open>part_005\<close>.\<close>

definition margin_default :: margin where
  "margin_default = \<lparr> top = 10, right = 10, bottom = 50, left = 50 \<rparr>"

text \<open>The margin literal of \<^verbatim>\<open>part_004\<close>.\<close>

definition margin_wide :: margin where
  "margin_wide = \<lparr> top = 20, right = 20, bottom = 50, left = 70 \<rparr>"

section \<open>Scales\<close>

text \<open>
  Modelled from the spec: \<^verbatim>\<open>d3.extent\<close> is a library function that is not part of the
  sources.  It returns the pair of the smallest and the largest accessed value, and
  \<^verbatim>\<open>[undefined, undefined]\<close> (here \<open>None\<close>) for an empty array.
\<close>

definition d3_extent :: "'a list \<Rightarrow> ('a \<Rightarrow> real) \<Rightarrow> (real \<times> real) option" where
  "d3_extent vals valueof =
     fold (\<lambda>d acc. case acc of
                       None \<Rightarrow> Some (valueof d, valueof d)
                     | Some (mn, mx) \<Rightarrow>
                         Some (if mn > valueof d then valueof d else mn,
                               if mx < valueof d then valueof d else mx))
          vals None"

text \<open>
  Modelled from the spec: a linear scale of d3 (\<^verbatim>\<open>d3.scaleLinear\<close>), which is not part of
  the sources: a domain interval, a range interval and the linear map between them.
\<close>

record 'r scale =
  domain :: "jsnum \<times> jsnum"
  range :: "'r \<times> 'r"

definition scaleLinear :: "real scale" where
  "scaleLinear = \<lparr> domain = (Fin 0, Fin 1), range = (0, 1) \<rparr>"

text \<open>
  \<^verbatim>\<open>.domain(d3.extent(...))\<close> coerces each bound to a number: \<^verbatim>\<open>undefined\<close> becomes
  \<^verbatim>\<open>NaN\<close>.  Nothing is checked.
\<close>

definition set_domain :: "(real \<times> real) option \<Rightarrow> 'r scale \<Rightarrow> 'r scale" where
  "set_domain ext s =
     s\<lparr> domain := (case ext of None \<Rightarrow> (NaN, NaN) | Some (a, b) \<Rightarrow> (Fin a, Fin b)) \<rparr>"

text \<open>\<^verbatim>\<open>.range([r0, r1])\<close>: numbers for a position scale, colours for the colour scale.\<close>

definition set_range :: "'r \<times> 'r \<Rightarrow> 'q scale \<Rightarrow> 'r scale" where
  "set_range r s = \<lparr> domain = domain s, range = r \<rparr>"

subsection \<open>Niceing\<close>

text \<open>
  Modelled from the spec: the standard niceing rule of the scale library
  (\<^verbatim>\<open>tickIncrement\<close> of d3-array and \<^verbatim>\<open>scale.nice\<close> of d3-scale), which is not part of the
  sources.  The tutorial text of the repository records two of its results:
  \<^verbatim>\<open>[11.8, 77.26]\<close> becomes \<^verbatim>\<open>[10, 80]\<close> and \<^verbatim>\<open>[0.27, 0.97]\<close> becomes \<^verbatim>\<open>[0.2, 1]\<close>.

  \<^verbatim>\<open>tickIncrement(start, stop, count)\<close> divides the interval into \<open>count\<close> raw steps and
  rounds the raw step to 1, 2, 5 or 10 times a power of ten.  A step below one is
  returned as the negated inverse, so that it stays an integer.  Its result can be
  infinite or \<^verbatim>\<open>NaN\<close> when the interval is empty, reversed or \<^verbatim>\<open>NaN\<close>.  \<^verbatim>\<open>scale.nice\<close>
  repeats the rounding until the step no longer changes; earlier releases of the library
  round exactly twice, which gives the same domain in every example below.  The products
  and quotients of the loop are exact here; in doubles a product such as \<^verbatim>\<open>0.58 * -50\<close> falls
  just short of an integer, and the niced bound of the script then lies one step further
  out.
\<close>

datatype increment = Step real | PosInfinity | NegInfinity | NaNStep

definition e10 :: real where "e10 = sqrt 50"
definition e5 :: real where "e5 = sqrt 10"
definition e2 :: real where "e2 = sqrt 2"

definition tick_factor :: "real \<Rightarrow> real" where
  "tick_factor error =
     (if error \<ge> e10 then 10 else if error \<ge> e5 then 5 else if error \<ge> e2 then 2 else 1)"

text \<open>\<^verbatim>\<open>Math.pow(10, p)\<close> for an integer \<open>p\<close>.\<close>

definition pow10 :: "int \<Rightarrow> real" where
  "pow10 p = (if p \<ge> 0 then 10 ^ nat p else 1 / 10 ^ nat (- p))"

fun tickIncrement :: "jsnum \<Rightarrow> jsnum \<Rightarrow> real \<Rightarrow> increment" where
  "tickIncrement (Fin start) (Fin stop) count =
     (if max 0 count = 0 then
        \<comment> \<open>division by zero: \<^verbatim>\<open>Infinity\<close> for a positive length, \<^verbatim>\<open>NaN\<close> otherwise\<close>
        (if stop - start > 0 then PosInfinity else NaNStep)
      else
        (let step = (stop - start) / max 0 count in
         if step > 0 then
           (let power = \<lfloor>log 10 step\<rfloor>;
                error = step / pow10 power
            in if power \<ge> 0 then Step (tick_factor error * pow10 power)
               else Step (- pow10 (- power) / tick_factor error))
         else if step = 0 then
           \<comment> \<open>\<^verbatim>\<open>Math.log(0)\<close> is \<^verbatim>\<open>-Infinity\<close>, so the result is \<^verbatim>\<open>-Math.pow(10, Infinity)\<close>\<close>
           NegInfinity
         else
           \<comment> \<open>the logarithm of a negative step is \<^verbatim>\<open>NaN\<close>\<close>
           NaNStep))"
| "tickIncrement NaN stop count = NaNStep"
| "tickIncrement (Fin start) NaN count = NaNStep"

text \<open>
  \<^verbatim>\<open>step === prestep\<close>, where \<^verbatim>\<open>prestep\<close> is \<^verbatim>\<open>undefined\<close> before the first round.
\<close>

fun same_step :: "increment \<Rightarrow> increment option \<Rightarrow> bool" where
  "same_step step None = False"
| "same_step NaNStep (Some prestep) = False"
| "same_step step (Some prestep) = (step = prestep)"

text \<open>
  The loop of \<^verbatim>\<open>scale.nice\<close>, at most \<open>maxIter\<close> rounds.  \<open>Some\<close> is the new pair of
  bounds (\<^verbatim>\<open>return domain(d)\<close>); \<open>None\<close> is \<^verbatim>\<open>return scale\<close>, which leaves the domain as
  it was (after \<^verbatim>\<open>break\<close> or when the rounds are used up).  An infinite step turns both
  bounds into \<^verbatim>\<open>NaN\<close>.
\<close>

fun nice_loop ::
  "nat \<Rightarrow> increment option \<Rightarrow> jsnum \<Rightarrow> jsnum \<Rightarrow> real \<Rightarrow> (jsnum \<times> jsnum) option" where
  "nice_loop 0 prestep start stop count = None"
| "nice_loop (Suc maxIter) prestep start stop count =
     (let step = tickIncrement start stop count in
      if same_step step prestep then Some (start, stop)
      else
        (case step of
           Step s \<Rightarrow>
             if s > 0 then
               nice_loop maxIter (Some step)
                 (js_map (\<lambda>x. of_int \<lfloor>x / s\<rfloor> * s) start)
                 (js_map (\<lambda>x. of_int \<lceil>x / s\<rceil> * s) stop) count
             else if s < 0 then
               nice_loop maxIter (Some step)
                 (js_map (\<lambda>x. of_int \<lceil>x * s\<rceil> / s) start)
                 (js_map (\<lambda>x. of_int \<lfloor>x * s\<rfloor> / s) stop) count
             else None
         | PosInfinity \<Rightarrow> nice_loop maxIter (Some step) NaN NaN count
         | NegInfinity \<Rightarrow> nice_loop maxIter (Some step) NaN NaN count
         | NaNStep \<Rightarrow> None))"

text \<open>
  \<^verbatim>\<open>.nice()\<close>: the count defaults to 10 and there are at most 10 rounds.  A reversed
  domain is niced from its smaller to its larger bound and written back in its order.
\<close>

definition nice :: "'r scale \<Rightarrow> 'r scale" where
  "nice s =
     (let (d0, d1) = domain s;
          reversed = js_lt d1 d0;
          start = (if reversed then d1 else d0);
          stop = (if reversed then d0 else d1)
      in case nice_loop 10 None start stop 10 of
           None \<Rightarrow> s
         | Some (a, b) \<Rightarrow> s\<lparr> domain := (if reversed then (b, a) else (a, b)) \<rparr>)"

subsection \<open>Applying a scale\<close>

text \<open>
  \<^verbatim>\<open>normalize(a, b)\<close> of d3-scale: the position of \<open>x\<close> between \<open>a\<close> and \<open>b\<close>; the
  constant 0.5 for an empty interval, and \<^verbatim>\<open>NaN\<close> when a bound is \<^verbatim>\<open>NaN\<close>.
\<close>

fun normalize :: "jsnum \<Rightarrow> jsnum \<Rightarrow> real \<Rightarrow> jsnum" where
  "normalize (Fin a) (Fin b) x = (if b - a \<noteq> 0 then Fin ((x - a) / (b - a)) else Fin 0.5)"
| "normalize NaN b x = NaN"
| "normalize (Fin a) NaN x = NaN"

text \<open>\<^verbatim>\<open>interpolateNumber(a, b)\<close> of d3-interpolate.\<close>

definition interpolateNumber :: "real \<Rightarrow> real \<Rightarrow> real \<Rightarrow> real" where
  "interpolateNumber a b t = a * (1 - t) + b * t"

text \<open>
  The scale as a function of a number (\<^verbatim>\<open>bimap\<close> of d3-scale): a reversed domain is
  normalised from its smaller bound, with the range reversed as well.  The interpolator
  depends on the kind of range.
\<close>

definition bimap :: "('r \<Rightarrow> 'r \<Rightarrow> jsnum \<Rightarrow> 'o) \<Rightarrow> 'r scale \<Rightarrow> real \<Rightarrow> 'o" where
  "bimap interpolate s x =
     (let (d0, d1) = domain s; (r0, r1) = range s in
      if js_lt d1 d0 then interpolate r1 r0 (normalize d1 d0 x)
      else interpolate r0 r1 (normalize d0 d1 x))"

definition scale_apply :: "real scale \<Rightarrow> real \<Rightarrow> jsnum" where
  "scale_apply s x = bimap (\<lambda>a b. js_map (interpolateNumber a b)) s x"

text \<open>
  The same computation with every arithmetic result rounded by \<open>rnd\<close>, as the script
  computes it in doubles: \<^verbatim>\<open>(x - a) / b\<close> with \<^verbatim>\<open>b = b - a\<close> in \<^verbatim>\<open>normalize\<close>, and
  \<^verbatim>\<open>a * (1 - t) + b * t\<close> in \<^verbatim>\<open>interpolateNumber\<close>.  With the identity for \<open>rnd\<close> it is
  \<open>scale_apply\<close>.  \<^verbatim>\<open>a >= b\<close> is false as soon as one side is \<^verbatim>\<open>NaN\<close>.
\<close>

fun normalize_fl :: "(real \<Rightarrow> real) \<Rightarrow> jsnum \<Rightarrow> jsnum \<Rightarrow> real \<Rightarrow> jsnum" where
  "normalize_fl rnd (Fin a) (Fin b) x =
     (if rnd (b - a) \<noteq> 0 then Fin (rnd (rnd (x - a) / rnd (b - a))) else Fin 0.5)"
| "normalize_fl rnd NaN b x = NaN"
| "normalize_fl rnd (Fin a) NaN x = NaN"

definition interpolateNumber_fl :: "(real \<Rightarrow> real) \<Rightarrow> real \<Rightarrow> real \<Rightarrow> real \<Rightarrow> real" where
  "interpolateNumber_fl rnd a b t = rnd (rnd (a * rnd (1 - t)) + rnd (b * t))"

definition scale_apply_fl :: "(real \<Rightarrow> real) \<Rightarrow> real scale \<Rightarrow> real \<Rightarrow> jsnum" where
  "scale_apply_fl rnd s x =
     (let (d0, d1) = domain s; (r0, r1) = range s in
      if js_lt d1 d0 then js_map (interpolateNumber_fl rnd r1 r0) (normalize_fl rnd d1 d0 x)
      else js_map (interpolateNumber_fl rnd r0 r1) (normalize_fl rnd d0 d1 x))"


text \<open>
  The position scales of the scatterplot scripts:
  \<^verbatim>\<open>d3.scaleLinear().domain(d3.extent(dataset, xAccessor)).range([0, dimensions.boundedWidth]).nice()\<close>
  and the same for \<open>y\<close> with the range \<^verbatim>\<open>[dimensions.boundedHeight, 0]\<close>.
\<close>

definition xScale :: "dimensions \<Rightarrow> weather list \<Rightarrow> real scale" where
  "xScale dims dataset =
     nice (set_range (0, boundedWidth dims) (set_domain (d3_extent dataset xAccessor) scaleLinear))"

definition yScale :: "dimensions \<Rightarrow> weather list \<Rightarrow> real scale" where
  "yScale dims dataset =
     nice (set_range (boundedHeight dims, 0) (set_domain (d3_extent dataset yAccessor) scaleLinear))"

subsection \<open>The colour scale\<close>

text \<open>
  Modelled from the spec: a colour range is interpolated channel by channel
  (\<^verbatim>\<open>interpolateRgb\<close> of d3-interpolate with its default gamma, not part of the
  sources): a channel moves linearly from its start to its end and is constant when the
  two are equal.  The result is written as \<^verbatim>\<open>rgb(r, g, b)\<close> with every channel rounded
  and clamped to 0..255; a \<^verbatim>\<open>NaN\<close> channel is written as 0.
\<close>

datatype rgb = Rgb real real real

definition skyblue :: rgb where "skyblue = Rgb 135 206 235"
definition darkslategrey :: rgb where "darkslategrey = Rgb 47 79 79"

definition nogamma :: "real \<Rightarrow> real \<Rightarrow> jsnum \<Rightarrow> jsnum" where
  "nogamma a b t = (if b - a \<noteq> 0 then js_map (\<lambda>t. a + t * (b - a)) t else Fin a)"

fun clampi :: "jsnum \<Rightarrow> int" where
  "clampi (Fin v) = max 0 (min 255 \<lfloor>v + 0.5\<rfloor>)"
| "clampi NaN = 0"

fun interpolateRgb :: "rgb \<Rightarrow> rgb \<Rightarrow> jsnum \<Rightarrow> int \<times> int \<times> int" where
  "interpolateRgb (Rgb r0 g0 b0) (Rgb r1 g1 b1) t =
     (clampi (nogamma r0 r1 t), clampi (nogamma g0 g1 t), clampi (nogamma b0 b1 t))"

definition color_apply :: "rgb scale \<Rightarrow> real \<Rightarrow> int \<times> int \<times> int" where
  "color_apply s x = bimap interpolateRgb s x"

text \<open>
  \<^verbatim>\<open>d3.scaleLinear().domain(d3.extent(dataset, colorAccessor)).range(["skyblue", "darkslategrey"])\<close>
\<close>

definition colorScale :: "weather list \<Rightarrow> rgb scale" where
  "colorScale dataset =
     set_range (skyblue, darkslategrey) (set_domain (d3_extent dataset colorAccessor) scaleLinear)"

text \<open>What the handlers and attribute functions of one script close over.\<close>

record chart =
  dims :: dimensions
  xS :: "real scale"
  yS :: "real scale"
  colorS :: "rgb scale"

definition make_chart :: "margin \<Rightarrow> real \<Rightarrow> real \<Rightarrow> weather list \<Rightarrow> chart" where
  "make_chart m innerWidth innerHeight dataset =
     (let d = chart_dimensions m innerWidth innerHeight in
      \<lparr> dims = d, xS = xScale d dataset, yS = yScale d dataset, colorS = colorScale dataset \<rparr>)"

section \<open>The document\<close>

text \<open>
  An attribute value, before the document turns it into a string: a number, a string,
  a colour written as \<^verbatim>\<open>rgb(r, g, b)\<close>, or the path of the tessellation cell with a
  given index (\<^verbatim>\<open>voronoi.renderCell(i)\<close>; the tessellation itself is outside the
  repository).
\<close>

datatype aval = ANum jsnum | AStr string | ARgb "int \<times> int \<times> int" | ACell nat

text \<open>
  An element of the drawing: its identity, its tag, the record bound to it
  (\<^verbatim>\<open>__data__\<close>), its attributes, its inline styles and the event types it listens to.
\<close>

record elem =
  eid :: nat
  tag :: string
  datum :: "weather option"
  attrs :: "string \<rightharpoonup> aval"
  styles :: "string \<rightharpoonup> string"
  listeners :: "string list"

definition new_elem :: "nat \<Rightarrow> string \<Rightarrow> weather option \<Rightarrow> elem" where
  "new_elem n name d =
     \<lparr> eid = n, tag = name, datum = d, attrs = Map.empty, styles = Map.empty, listeners = [] \<rparr>"

definition is_tag :: "string \<Rightarrow> elem \<Rightarrow> bool" where
  "is_tag name e = (tag e = name)"

definition has_class :: "string \<Rightarrow> elem \<Rightarrow> bool" where
  "has_class c e = (attrs e ''class'' = Some (AStr c))"

text \<open>
  What the tooltip shows in one of its fields: the value and the formatter applied to
  it (\<^verbatim>\<open>d3.format(".2f")\<close>, \<^verbatim>\<open>d3.timeFormat("%B %A %-d, %Y")\<close> after
  \<^verbatim>\<open>d3.timeParse("%Y-%m-%d")\<close>, or the template \<^verbatim>\<open>${...}%\<close>).
\<close>

datatype shown = Fixed2 real | LongDate string | Percent real

record tooltip =
  opacity :: "real option"
  texts :: "string \<rightharpoonup> shown"
  transform :: "(jsnum \<times> jsnum) option"

text \<open>
  The page: the children of the \<^verbatim>\<open>bounds\<close> group of the chart being drawn, the elements
  of the document outside that group, the \<^verbatim>\<open>#tooltip\<close> element, and the next unused
  element identity.  The contents of an axis group (path, lines, labels) are not
  listed: they contain no circle and no element with a class the scripts select.
\<close>

record page =
  bounds :: "elem list"
  elsewhere :: "elem list"
  tooltip :: tooltip
  next_id :: nat

section \<open>Selections and the data join\<close>

text \<open>
  Modelled from the spec: the selection library (d3-selection) is not part of the
  sources.  \<^verbatim>\<open>bounds.selectAll(selector)\<close> lists the matching elements in document order;
  the children are kept in place with a mark telling whether they are selected.
\<close>

definition selectAll :: "(elem \<Rightarrow> bool) \<Rightarrow> elem list \<Rightarrow> (elem \<times> bool) list" where
  "selectAll sel cs = map (\<lambda>e. (e, sel e)) cs"

text \<open>
  \<^verbatim>\<open>.data(dataset)\<close> without a key joins by index: the \<open>i\<close>-th selected element is bound
  to the \<open>i\<close>-th record (update), selected elements beyond the data are the exit
  selection, and records beyond the selected elements are the enter selection.
\<close>

datatype slot = Outside elem | Update elem weather nat | Exit elem

fun bind_nodes :: "nat \<Rightarrow> (elem \<times> bool) list \<Rightarrow> weather list \<Rightarrow> slot list" where
  "bind_nodes i [] ds = []"
| "bind_nodes i ((e, False) # es) ds = Outside e # bind_nodes i es ds"
| "bind_nodes i ((e, True) # es) [] = Exit e # bind_nodes i es []"
| "bind_nodes i ((e, True) # es) (d # ds) =
     Update (e\<lparr> datum := Some d \<rparr>) d i # bind_nodes (Suc i) es ds"

record joined =
  slots :: "slot list"
  enter :: "(weather \<times> nat) list"

definition data :: "(elem \<times> bool) list \<Rightarrow> weather list \<Rightarrow> joined" where
  "data sel dataset =
     (let n = length (filter snd sel) in
      \<lparr> slots = bind_nodes 0 sel dataset,
        enter = zip (drop n dataset) [n ..< length dataset] \<rparr>)"

text \<open>
  An element of the page during a chain of calls: outside the current selection, or in
  it together with the record and the index that the callbacks receive.
\<close>

datatype entry = Unselected elem | Selected elem weather nat

fun node :: "entry \<Rightarrow> elem" where
  "node (Unselected e) = e"
| "node (Selected e d i) = e"

fun append_enter :: "string \<Rightarrow> nat \<Rightarrow> (weather \<times> nat) list \<Rightarrow> entry list" where
  "append_enter name n [] = []"
| "append_enter name n ((d, i) # r) =
     Selected (new_elem n name (Some d)) d i # append_enter name (Suc n) r"

text \<open>
  \<^verbatim>\<open>.join(name)\<close>: the exit elements are removed, one new element per entering record is
  appended to the parent, and the result selects the updated and the new elements.
\<close>

fun join_slots :: "slot list \<Rightarrow> entry list" where
  "join_slots [] = []"
| "join_slots (Outside e # r) = Unselected e # join_slots r"
| "join_slots (Update e d i # r) = Selected e d i # join_slots r"
| "join_slots (Exit e # r) = join_slots r"

definition join :: "string \<Rightarrow> nat \<Rightarrow> joined \<Rightarrow> entry list \<times> nat" where
  "join name n j =
     (join_slots (slots j) @ append_enter name n (enter j), n + length (enter j))"

text \<open>
  \<^verbatim>\<open>.enter().append(name)\<close>: only the new elements are appended and selected; the
  elements that were there stay, the exit elements included.
\<close>

fun enter_slots :: "slot list \<Rightarrow> entry list" where
  "enter_slots [] = []"
| "enter_slots (Outside e # r) = Unselected e # enter_slots r"
| "enter_slots (Update e d i # r) = Unselected e # enter_slots r"
| "enter_slots (Exit e # r) = Unselected e # enter_slots r"

definition enter_append :: "string \<Rightarrow> nat \<Rightarrow> joined \<Rightarrow> entry list \<times> nat" where
  "enter_append name n j =
     (enter_slots (slots j) @ append_enter name n (enter j), n + length (enter j))"

text \<open>\<^verbatim>\<open>.attr(name, f)\<close> and \<^verbatim>\<open>.on(type, listener)\<close> on the selected elements.\<close>

fun attr1 :: "string \<Rightarrow> (weather \<Rightarrow> nat \<Rightarrow> aval) \<Rightarrow> entry \<Rightarrow> entry" where
  "attr1 name f (Unselected e) = Unselected e"
| "attr1 name f (Selected e d i) = Selected (e\<lparr> attrs := (attrs e)(name \<mapsto> f d i) \<rparr>) d i"

definition attr :: "string \<Rightarrow> (weather \<Rightarrow> nat \<Rightarrow> aval) \<Rightarrow> entry list \<Rightarrow> entry list" where
  "attr name f es = map (attr1 name f) es"

fun on1 :: "string \<Rightarrow> entry \<Rightarrow> entry" where
  "on1 ev (Unselected e) = Unselected e"
| "on1 ev (Selected e d i) = Selected (e\<lparr> listeners := List.insert ev (listeners e) \<rparr>) d i"

definition on :: "string \<Rightarrow> entry list \<Rightarrow> entry list" where
  "on ev es = map (on1 ev) es"

text \<open>\<^verbatim>\<open>.on(type, listener)\<close> directly on the result of \<^verbatim>\<open>selectAll\<close>.\<close>

definition on_all :: "string \<Rightarrow> (elem \<times> bool) list \<Rightarrow> (elem \<times> bool) list" where
  "on_all ev sel =
     map (\<lambda>(e, s). (if s then e\<lparr> listeners := List.insert ev (listeners e) \<rparr> else e, s)) sel"

section \<open>The scatterplot scripts\<close>

text \<open>
  \<^verbatim>\<open>d3.select("#wrapper").append("svg")\<close> and \<^verbatim>\<open>wrapper.append("g")\<close>: every run of a
  script draws into a new, empty group.  What an earlier run drew stays in the document,
  outside the new group.
\<close>

definition new_bounds :: "page \<Rightarrow> page" where
  "new_bounds p = p\<lparr> bounds := [], elsewhere := elsewhere p @ bounds p \<rparr>"

text \<open>
  \<^verbatim>\<open>bounds.append(name)\<close> followed by constant attributes and styles.  The group has no
  bound record, so the new element has none.
\<close>

definition append_child ::
  "string \<Rightarrow> (string \<rightharpoonup> aval) \<Rightarrow> (string \<rightharpoonup> string) \<Rightarrow> page \<Rightarrow> page" where
  "append_child name as ss p =
     p\<lparr> bounds := bounds p @ [(new_elem (next_id p) name None)\<lparr> attrs := as, styles := ss \<rparr>],
        next_id := Suc (next_id p) \<rparr>"

text \<open>
  The dots of \<^verbatim>\<open>part_001\<close>, \<^verbatim>\<open>part_004\<close> and \<^verbatim>\<open>part_005\<close>:
  \<^verbatim>\<open>bounds.selectAll("circle").data(dataset)\<close>, then \<^verbatim>\<open>.join("circle")\<close> and the four
  attributes.
\<close>

definition draw_dots :: "chart \<Rightarrow> weather list \<Rightarrow> page \<Rightarrow> page" where
  "draw_dots c dataset p =
     (let dots = data (selectAll (is_tag ''circle'') (bounds p)) dataset;
          (es, n) = join ''circle'' (next_id p) dots;
          es = attr ''cx'' (\<lambda>d i. ANum (scale_apply (xS c) (xAccessor d))) es;
          es = attr ''cy'' (\<lambda>d i. ANum (scale_apply (yS c) (yAccessor d))) es;
          es = attr ''r'' (\<lambda>d i. ANum (Fin 5)) es;
          es = attr ''fill'' (\<lambda>d i. ARgb (color_apply (colorS c) (colorAccessor d))) es
      in p\<lparr> bounds := map node es, next_id := n \<rparr>)"

text \<open>
  The dots of \<^verbatim>\<open>part_000\<close>:
  \<^verbatim>\<open>bounds.selectAll("circle").data(dataset).enter().append("circle")\<close>, no attribute.
\<close>

definition draw_dots_enter :: "weather list \<Rightarrow> page \<Rightarrow> page" where
  "draw_dots_enter dataset p =
     (let (es, n) = enter_append ''circle'' (next_id p)
                      (data (selectAll (is_tag ''circle'') (bounds p)) dataset)
      in p\<lparr> bounds := map node es, next_id := n \<rparr>)"

text \<open>
  The tessellation cells: \<^verbatim>\<open>bounds.selectAll(".voronoi").data(dataset).join("path")\<close> and
  its attributes; \<^verbatim>\<open>part_001\<close> and \<^verbatim>\<open>part_004\<close> register the two listeners in the same
  chain.
\<close>

definition draw_cells :: "bool \<Rightarrow> weather list \<Rightarrow> page \<Rightarrow> page" where
  "draw_cells listen dataset p =
     (let (es, n) = join ''path'' (next_id p)
                      (data (selectAll (has_class ''voronoi'') (bounds p)) dataset);
          es = attr ''class'' (\<lambda>d i. AStr ''voronoi'') es;
          es = attr ''d'' (\<lambda>d i. ACell i) es;
          es = attr ''stroke'' (\<lambda>d i. AStr ''salmon'') es;
          es = attr ''fill'' (\<lambda>d i. AStr ''transparent'') es;
          es = (if listen then on ''mouseleave'' (on ''mouseenter'' es) else es)
      in p\<lparr> bounds := map node es, next_id := n \<rparr>)"

text \<open>
  \<^verbatim>\<open>bounds.selectAll(".voronoi").on("mouseenter", onMouseEnter).on("mouseleave", onMouseLeave)\<close>
  of \<^verbatim>\<open>part_005\<close>.
\<close>

definition listen_cells :: "page \<Rightarrow> page" where
  "listen_cells p =
     p\<lparr> bounds := map fst (on_all ''mouseleave''
                   (on_all ''mouseenter'' (selectAll (has_class ''voronoi'') (bounds p)))) \<rparr>"

text \<open>An axis: \<^verbatim>\<open>bounds.append("g").call(axisGenerator)\<close> with its label inside.\<close>

definition draw_axis :: "page \<Rightarrow> page" where
  "draw_axis p = append_child ''g'' Map.empty Map.empty p"

definition drawScatter_000 :: "real \<Rightarrow> real \<Rightarrow> weather list \<Rightarrow> page \<Rightarrow> page" where
  "drawScatter_000 innerWidth innerHeight dataset p = draw_dots_enter dataset (new_bounds p)"

definition drawScatter_001 :: "real \<Rightarrow> real \<Rightarrow> weather list \<Rightarrow> page \<Rightarrow> page" where
  "drawScatter_001 innerWidth innerHeight dataset p =
     (let c = make_chart margin_default innerWidth innerHeight dataset;
          p = new_bounds p;
          p = draw_dots c dataset p;
          p = draw_cells True dataset p;
          p = draw_axis p;
          p = draw_axis p
      in p)"

definition drawScatter_004 :: "real \<Rightarrow> real \<Rightarrow> weather list \<Rightarrow> page \<Rightarrow> page" where
  "drawScatter_004 innerWidth innerHeight dataset p =
     (let c = make_chart margin_wide innerWidth innerHeight dataset;
          p = new_bounds p;
          p = append_child ''rect''
                [''width'' \<mapsto> ANum (Fin (width (dims c) - right (margin (dims c))
                                                - left (margin (dims c)))),
                 ''height'' \<mapsto> ANum (Fin (height (dims c) - top (margin (dims c))
                                                 - bottom (margin (dims c)))),
                 ''fill'' \<mapsto> AStr ''#eeeeee'']
                Map.empty p;
          p = draw_dots c dataset p;
          p = draw_axis p;
          p = draw_axis p;
          p = draw_cells True dataset p
      in p)"

definition drawScatter_005 :: "real \<Rightarrow> real \<Rightarrow> weather list \<Rightarrow> page \<Rightarrow> page" where
  "drawScatter_005 innerWidth innerHeight dataset p =
     (let c = make_chart margin_default innerWidth innerHeight dataset;
          p = new_bounds p;
          p = draw_dots c dataset p;
          p = draw_cells False dataset p;
          p = draw_axis p;
          p = draw_axis p;
          p = listen_cells p
      in p)"

section \<open>Hover handlers\<close>

text \<open>
  The highlight mark of \<^verbatim>\<open>part_004\<close> and \<^verbatim>\<open>part_005\<close>: \<^verbatim>\<open>bounds.append("circle")\<close> with the
  class \<^verbatim>\<open>tooltipDot\<close>, the position of the hovered record, and pointer events switched
  off.
\<close>

definition dayDot :: "chart \<Rightarrow> weather \<Rightarrow> page \<Rightarrow> page" where
  "dayDot c d p =
     append_child ''circle''
       [''class'' \<mapsto> AStr ''tooltipDot'',
        ''cx'' \<mapsto> ANum (scale_apply (xS c) (xAccessor d)),
        ''cy'' \<mapsto> ANum (scale_apply (yS c) (yAccessor d)),
        ''r'' \<mapsto> ANum (Fin 7)]
       [''fill'' \<mapsto> ''maroon'', ''pointer-events'' \<mapsto> ''none''] p"

text \<open>
  The tooltip position: the position of the record, shifted by the left and top
  margins.
\<close>

definition tooltip_position :: "chart \<Rightarrow> weather \<Rightarrow> jsnum \<times> jsnum" where
  "tooltip_position c d =
     (js_map (\<lambda>v. v + left (margin (dims c))) (scale_apply (xS c) (xAccessor d)),
      js_map (\<lambda>v. v + top (margin (dims c))) (scale_apply (yS c) (yAccessor d)))"

text \<open>\<^verbatim>\<open>onMouseEnter\<close> of \<^verbatim>\<open>part_004\<close> and of \<^verbatim>\<open>part_005\<close> (the same statements).\<close>

definition onMouseEnter :: "chart \<Rightarrow> weather \<Rightarrow> page \<Rightarrow> page" where
  "onMouseEnter c d p =
     (let p = dayDot c d p;
          t = tooltip p;
          t = t\<lparr> opacity := Some 1 \<rparr>;
          t = t\<lparr> texts := (texts t)(''#humidity'' \<mapsto> Fixed2 (yAccessor d)) \<rparr>;
          t = t\<lparr> texts := (texts t)(''#dew-point'' \<mapsto> Fixed2 (xAccessor d)) \<rparr>;
          t = t\<lparr> texts := (texts t)(''#date'' \<mapsto> LongDate (date d)) \<rparr>;
          t = t\<lparr> transform := Some (tooltip_position c d) \<rparr>
      in p\<lparr> tooltip := t \<rparr>)"

text \<open>\<^verbatim>\<open>onMouseEnter\<close> of \<^verbatim>\<open>part_001\<close>: the tooltip only, with the cloud cover.\<close>

definition onMouseEnter_001 :: "chart \<Rightarrow> weather \<Rightarrow> page \<Rightarrow> page" where
  "onMouseEnter_001 c d p =
     (let t = tooltip p;
          t = t\<lparr> texts := (texts t)(''#humidity'' \<mapsto> Fixed2 (yAccessor d)) \<rparr>;
          t = t\<lparr> texts := (texts t)(''#dew-point'' \<mapsto> Fixed2 (xAccessor d)) \<rparr>;
          t = t\<lparr> texts := (texts t)(''#date'' \<mapsto> LongDate (date d)) \<rparr>;
          t = t\<lparr> texts := (texts t)(''#cover'' \<mapsto> Percent (colorAccessor d * 100)) \<rparr>;
          t = t\<lparr> transform := Some (tooltip_position c d) \<rparr>;
          t = t\<lparr> opacity := Some 1 \<rparr>
      in p\<lparr> tooltip := t \<rparr>)"

text \<open>
  \<^verbatim>\<open>d3.selectAll(".tooltipDot").remove()\<close>: the selection is taken in the whole document,
  not in the group of the chart.
\<close>

definition remove_tooltipDots :: "page \<Rightarrow> page" where
  "remove_tooltipDots p =
     p\<lparr> bounds := filter (\<lambda>e. \<not> has_class ''tooltipDot'' e) (bounds p),
        elsewhere := filter (\<lambda>e. \<not> has_class ''tooltipDot'' e) (elsewhere p) \<rparr>"

text \<open>\<^verbatim>\<open>onMouseLeave\<close> of \<^verbatim>\<open>part_001\<close>: \<^verbatim>\<open>tooltip.style("opacity", 0)\<close>.\<close>

definition onMouseLeave_001 :: "page \<Rightarrow> page" where
  "onMouseLeave_001 p = p\<lparr> tooltip := (tooltip p)\<lparr> opacity := Some 0 \<rparr> \<rparr>"

text \<open>
  \<^verbatim>\<open>onMouseLeave\<close> of \<^verbatim>\<open>part_004\<close>: the line that hides the tooltip is commented out; only
  the highlight marks are removed.
\<close>

definition onMouseLeave_004 :: "page \<Rightarrow> page" where
  "onMouseLeave_004 p = remove_tooltipDots p"

text \<open>\<^verbatim>\<open>onMouseLeave\<close> of \<^verbatim>\<open>part_005\<close>: the tooltip is hidden, then the marks are removed.\<close>

definition onMouseLeave_005 :: "page \<Rightarrow> page" where
  "onMouseLeave_005 p =
     remove_tooltipDots (p\<lparr> tooltip := (tooltip p)\<lparr> opacity := Some 0 \<rparr> \<rparr>)"

text \<open>The highlight marks on the page, and a run of pointer-enter events.\<close>

definition tooltipDots :: "page \<Rightarrow> elem list" where
  "tooltipDots p = filter (has_class ''tooltipDot'') (bounds p @ elsewhere p)"

definition enters :: "chart \<Rightarrow> weather list \<Rightarrow> page \<Rightarrow> page" where
  "enters c ds p = fold (onMouseEnter c) ds p"

text \<open>
  An element is the target of a pointer event of a type only if it listens to the type
  and its pointer events are not switched off.
\<close>

definition receives :: "string \<Rightarrow> elem \<Rightarrow> bool" where
  "receives ev e = (ev \<in> set (listeners e) \<and> styles e ''pointer-events'' \<noteq> Some ''none'')"

section \<open>The line and area chart samples\<close>

text \<open>
  A value of \<^verbatim>\<open>data.json\<close> has a date, a string of the form \<^verbatim>\<open>YYYY/MM/DD\<close> when it is
  loaded, and a closing price, a number.  After the first loop of \<^verbatim>\<open>drawLineChart\<close> the
  date field holds what \<^verbatim>\<open>parseTime\<close> returned: a date object or \<^verbatim>\<open>null\<close>.
\<close>

record jsdate =
  fullYear :: nat
  monthIndex :: int
  dayOfMonth :: nat

datatype datefield = DateString string | DateObject jsdate | DateNull

record point =
  p_date :: datefield
  p_close :: real

record company =
  "values" :: "point list"

text \<open>
  Modelled from the spec: \<^verbatim>\<open>d3.timeParse("%Y/%m/%d")\<close> is a library function that is not
  part of the sources.  A number directive reads optional white space and then digits,
  within a window of four (year) or two (month, day) characters; the slashes must match;
  nothing may follow the day.  The result is the date object built from the year, the
  month minus one and the day, or \<^verbatim>\<open>null\<close>.  How the date object normalises a day or
  month out of range is not modelled, and of the white space only the ASCII characters
  are listed (the library also skips the other Unicode spaces).
\<close>

definition is_digit :: "char \<Rightarrow> bool" where
  "is_digit ch = (ch \<in> set ''0123456789'')"

definition is_space :: "char \<Rightarrow> bool" where
  "is_space ch = (ch \<in> set [CHR '' '', CHR 0x09, CHR 0x0A, CHR 0x0B, CHR 0x0C, CHR 0x0D])"

definition digit_value :: "char \<Rightarrow> nat" where
  "digit_value ch = of_char ch - of_char (CHR ''0'')"

definition number_value :: "string \<Rightarrow> nat" where
  "number_value ds = foldl (\<lambda>n ch. 10 * n + digit_value ch) 0 ds"

text \<open>A number directive on a window of \<open>w\<close> characters: the value and the rest.\<close>

definition parse_number :: "nat \<Rightarrow> string \<Rightarrow> (nat \<times> string) option" where
  "parse_number w s =
     (let window = take w s;
          spaces = takeWhile is_space window;
          digits = takeWhile is_digit (drop (length spaces) window)
      in if digits = [] then None
         else Some (number_value digits, drop (length spaces + length digits) s))"

definition parse_literal :: "char \<Rightarrow> string \<Rightarrow> string option" where
  "parse_literal ch s = (case s of [] \<Rightarrow> None | x # r \<Rightarrow> if x = ch then Some r else None)"

definition parse_ymd :: "string \<Rightarrow> jsdate option" where
  "parse_ymd s =
     (case parse_number 4 s of None \<Rightarrow> None | Some (y, s1) \<Rightarrow>
      case parse_literal (CHR ''/'') s1 of None \<Rightarrow> None | Some s2 \<Rightarrow>
      case parse_number 2 s2 of None \<Rightarrow> None | Some (m, s3) \<Rightarrow>
      case parse_literal (CHR ''/'') s3 of None \<Rightarrow> None | Some s4 \<Rightarrow>
      case parse_number 2 s4 of None \<Rightarrow> None | Some (d, s5) \<Rightarrow>
      if s5 = [] then Some \<lparr> fullYear = y, monthIndex = int m - 1, dayOfMonth = d \<rparr>
      else None)"

text \<open>
  \<^verbatim>\<open>parseTime(d.date)\<close>.  A value that is not a string is turned into one first; the
  string of a date object and the string \<^verbatim>\<open>null\<close> do not start with a digit, so the
  result is \<^verbatim>\<open>null\<close>.
\<close>

fun parseTime :: "datefield \<Rightarrow> datefield" where
  "parseTime (DateString s) = (case parse_ymd s of None \<Rightarrow> DateNull | Some d \<Rightarrow> DateObject d)"
| "parseTime (DateObject d) = DateNull"
| "parseTime DateNull = DateNull"

text \<open>
  The first loop of \<^verbatim>\<open>drawLineChart\<close> in both samples:
  \<^verbatim>\<open>dataset.forEach((company) => { company.values.forEach((d) => { d.date = parseTime(d.date); d.close = +d.close; }); })\<close>.
  The objects are changed in place; the function returns the array as it is afterwards.
  The unary plus leaves a number as it is.
\<close>

definition parse_point :: "point \<Rightarrow> point" where
  "parse_point d = d\<lparr> p_date := parseTime (p_date d), p_close := p_close d \<rparr>"

definition parse_dataset :: "company list \<Rightarrow> company list" where
  "parse_dataset dataset = map (\<lambda>company. company\<lparr> values := map parse_point (values company) \<rparr>) dataset"

section \<open>Auxiliary definitions\<close>

text \<open>
  What the four \<^verbatim>\<open>.attr\<close> calls of the dots do to one element bound to the record \<open>d\<close>,
  and to one entry of the page.
\<close>

definition set_dot :: "chart \<Rightarrow> weather \<Rightarrow> elem \<Rightarrow> elem" where
  "set_dot c d e =
     e\<lparr> attrs := (attrs e)
          (''cx'' \<mapsto> ANum (scale_apply (xS c) (xAccessor d)),
           ''cy'' \<mapsto> ANum (scale_apply (yS c) (yAccessor d)),
           ''r'' \<mapsto> ANum (Fin 5),
           ''fill'' \<mapsto> ARgb (color_apply (colorS c) (colorAccessor d))) \<rparr>"

fun dot_entry :: "chart \<Rightarrow> entry \<Rightarrow> entry" where
  "dot_entry c (Unselected e) = Unselected e"
| "dot_entry c (Selected e d i) = Selected (set_dot c d e) d i"


text \<open>
  The children of the group after the join of the dots, as one recursion over the
  children and the records: a circle takes the next record, a circle without a record is
  removed, every other element stays.  \<open>fresh_dots\<close> are the circles appended for the
  records that are left.
\<close>

fun reconcile :: "chart \<Rightarrow> elem list \<Rightarrow> weather list \<Rightarrow> elem list" where
  "reconcile c [] ds = []"
| "reconcile c (e # es) ds =
     (if is_tag ''circle'' e then
        (case ds of [] \<Rightarrow> reconcile c es [] | d # r \<Rightarrow> set_dot c d (e\<lparr> datum := Some d \<rparr>) # reconcile c es r)
      else e # reconcile c es ds)"

fun fresh_dots :: "chart \<Rightarrow> nat \<Rightarrow> weather list \<Rightarrow> elem list" where
  "fresh_dots c n [] = []"
| "fresh_dots c n (d # ds) = set_dot c d (new_elem n ''circle'' (Some d)) # fresh_dots c (Suc n) ds"


text \<open>An element that the four attribute calls for the record \<open>d\<close> would not change.\<close>

definition dot_ok :: "chart \<Rightarrow> elem \<Rightarrow> weather \<Rightarrow> bool" where
  "dot_ok c e d = (set_dot c d (e\<lparr> datum := Some d \<rparr>) = e)"


text \<open>
  The children of the group after \<^verbatim>\<open>.data(dataset).enter().append("circle")\<close>: a circle
  takes the next record, nothing is removed; \<open>plain_dots\<close> are the circles appended for the
  records that are left.
\<close>

fun rebind :: "elem list \<Rightarrow> weather list \<Rightarrow> elem list" where
  "rebind [] ds = []"
| "rebind (e # es) ds =
     (if is_tag ''circle'' e then
        (case ds of [] \<Rightarrow> e # rebind es [] | d # r \<Rightarrow> e\<lparr> datum := Some d \<rparr> # rebind es r)
      else e # rebind es ds)"

fun plain_dots :: "nat \<Rightarrow> weather list \<Rightarrow> elem list" where
  "plain_dots n [] = []"
| "plain_dots n (d # ds) = new_elem n ''circle'' (Some d) # plain_dots (Suc n) ds"

text \<open>
  What the chain of calls on the tessellation cells does to one entry, the new cells of
  a group that had none, the group of an axis, the background rectangle of
  \<^verbatim>\<open>part_004\<close>, and what the two \<^verbatim>\<open>.on\<close> calls of \<^verbatim>\<open>part_005\<close> do to one element.
\<close>

definition cell_entry :: "bool \<Rightarrow> entry \<Rightarrow> entry" where
  "cell_entry listen x =
     (let x = attr1 ''fill'' (\<lambda>d i. AStr ''transparent'')
                (attr1 ''stroke'' (\<lambda>d i. AStr ''salmon'')
                  (attr1 ''d'' (\<lambda>d i. ACell i)
                    (attr1 ''class'' (\<lambda>d i. AStr ''voronoi'') x)))
      in if listen then on1 ''mouseleave'' (on1 ''mouseenter'' x) else x)"

definition new_cells :: "bool \<Rightarrow> nat \<Rightarrow> weather list \<Rightarrow> elem list" where
  "new_cells l n D = map (node \<circ> cell_entry l) (append_enter ''path'' n (zip D [0 ..< length D]))"

definition axis_group :: "nat \<Rightarrow> elem" where
  "axis_group n = (new_elem n ''g'' None)\<lparr> attrs := Map.empty, styles := Map.empty \<rparr>"

definition background :: "chart \<Rightarrow> nat \<Rightarrow> elem" where
  "background c n =
     (new_elem n ''rect'' None)
       \<lparr> attrs := [''width'' \<mapsto> ANum (Fin (width (dims c) - right (margin (dims c))
                                                - left (margin (dims c)))),
                   ''height'' \<mapsto> ANum (Fin (height (dims c) - top (margin (dims c))
                                                 - bottom (margin (dims c)))),
                   ''fill'' \<mapsto> AStr ''#eeeeee''],
         styles := Map.empty \<rparr>"

definition listen1 :: "elem \<Rightarrow> elem" where
  "listen1 e =
     (if has_class ''voronoi'' e
      then e\<lparr> listeners := List.insert ''mouseleave'' (List.insert ''mouseenter'' (listeners e)) \<rparr>
      else e)"

text \<open>
  The highlight mark that \<^verbatim>\<open>onMouseEnter\<close> appends for the record \<open>d\<close> when the next
  unused identity is \<open>n\<close>, and the marks appended by a run of pointer-enter events.
\<close>

definition highlight :: "chart \<Rightarrow> nat \<Rightarrow> weather \<Rightarrow> elem" where
  "highlight c n d =
     (new_elem n ''circle'' None)
       \<lparr> attrs := [''class'' \<mapsto> AStr ''tooltipDot'',
                   ''cx'' \<mapsto> ANum (scale_apply (xS c) (xAccessor d)),
                   ''cy'' \<mapsto> ANum (scale_apply (yS c) (yAccessor d)),
                   ''r'' \<mapsto> ANum (Fin 7)],
         styles := [''fill'' \<mapsto> ''maroon'', ''pointer-events'' \<mapsto> ''none''] \<rparr>"

fun highlights :: "chart \<Rightarrow> nat \<Rightarrow> weather list \<Rightarrow> elem list" where
  "highlights c n [] = []"
| "highlights c n (d # ds) = highlight c n d # highlights c (Suc n) ds"




definition example_company :: company where
  "example_company = \<lparr> values = [\<lparr> p_date = DateString ''2019/01/01'', p_close = 10 \<rparr>] \<rparr>"

fun is_string :: "datefield \<Rightarrow> bool" where
  "is_string (DateString s) = True"
| "is_string (DateObject d) = False"
| "is_string DateNull = False"

text \<open>
  A rounding to use as an example: to the nearest multiple of \<open>1/1024\<close>.  It is monotone,
  keeps the integers, and sends close numbers to the same number.
\<close>

definition round_to_grid :: "real \<Rightarrow> real" where
  "round_to_grid v = of_int \<lfloor>v * 1024 + 1 / 2\<rfloor> / 1024"

section \<open>The data join of the dots\<close>

lemma dot_entry_attrs:
  "attr1 ''fill'' (\<lambda>d i. ARgb (color_apply (colorS c) (colorAccessor d)))
     (attr1 ''r'' (\<lambda>d i. ANum (Fin 5))
       (attr1 ''cy'' (\<lambda>d i. ANum (scale_apply (yS c) (yAccessor d)))
         (attr1 ''cx'' (\<lambda>d i. ANum (scale_apply (xS c) (xAccessor d))) x))) = dot_entry c x"
  by (cases x) (simp_all add: set_dot_def)

lemma draw_dots_entries:
  "draw_dots c D p =
     p\<lparr> bounds := map (node \<circ> dot_entry c)
                    (fst (join ''circle'' (next_id p) (data (selectAll (is_tag ''circle'') (bounds p)) D))),
        next_id := snd (join ''circle'' (next_id p) (data (selectAll (is_tag ''circle'') (bounds p)) D)) \<rparr>"
  by (simp add: draw_dots_def attr_def split_beta Let_def comp_def dot_entry_attrs)

lemma join_slots_reconcile:
  "map (node \<circ> dot_entry c) (join_slots (bind_nodes i (selectAll (is_tag ''circle'') cs) ds)) = reconcile c cs ds"
  by (induction cs arbitrary: ds i) (auto simp: selectAll_def split: list.splits)

lemma append_enter_fresh:
  "length ds = length is \<Longrightarrow>
   map (node \<circ> dot_entry c) (append_enter ''circle'' n (zip ds is)) = fresh_dots c n ds"
  by (induction ds "is" arbitrary: n rule: list_induct2) auto

lemma selected_count: "length (filter snd (selectAll P cs)) = length (filter P cs)"
  by (induction cs) (simp_all add: selectAll_def)

lemma bounds_draw_dots:
  "bounds (draw_dots c D p) =
     reconcile c (bounds p) D
       @ fresh_dots c (next_id p) (drop (length (filter (is_tag ''circle'') (bounds p))) D)"
  by (simp add: draw_dots_entries join_def data_def Let_def join_slots_reconcile append_enter_fresh
        selected_count del: o_apply)

lemma next_id_draw_dots:
  "next_id (draw_dots c D p) = next_id p + (length D - length (filter (is_tag ''circle'') (bounds p)))"
  by (simp add: draw_dots_entries join_def data_def Let_def selected_count)

lemma tag_set_dot: "tag (set_dot c d e) = tag e"
  by (simp add: set_dot_def)

lemma datum_set_dot: "datum (set_dot c d e) = datum e"
  by (simp add: set_dot_def)

lemma circles_reconcile:
  "map datum (filter (is_tag ''circle'') (reconcile c cs ds)) =
     map Some (take (length (filter (is_tag ''circle'') cs)) ds)"
  by (induction cs arbitrary: ds) (auto simp: is_tag_def tag_set_dot datum_set_dot split: list.splits)

lemma circles_fresh:
  "map datum (filter (is_tag ''circle'') (fresh_dots c n ds)) = map Some ds"
  by (induction ds arbitrary: n) (auto simp: is_tag_def tag_set_dot datum_set_dot new_elem_def)

lemma circles_draw_dots:
  "map datum (filter (is_tag ''circle'') (bounds (draw_dots c D p))) = map Some D"
proof -
  let ?k = "length (filter (is_tag ''circle'') (bounds p))"
  have "map datum (filter (is_tag ''circle'') (bounds (draw_dots c D p))) =
        map Some (take ?k D) @ map Some (drop ?k D)"
    by (simp add: bounds_draw_dots circles_reconcile circles_fresh)
  also have "\<dots> = map Some D"
    by (simp flip: map_append)
  finally show ?thesis .
qed

lemma set_dot_idem: "dot_ok c (set_dot c d (e\<lparr> datum := Some d \<rparr>)) d"
  by (simp add: dot_ok_def set_dot_def)

lemma reconcile_fixed:
  "list_all2 (dot_ok c) (filter (is_tag ''circle'') cs) ds \<Longrightarrow> reconcile c cs ds = cs"
  by (induction cs arbitrary: ds) (auto simp: dot_ok_def list_all2_Cons1)

lemma reconcile_ok:
  "list_all2 (dot_ok c) (filter (is_tag ''circle'') (reconcile c cs ds))
     (take (length (filter (is_tag ''circle'') cs)) ds)"
proof (induction cs arbitrary: ds)
  case Nil
  then show ?case by simp
next
  case (Cons e es)
  show ?case
  proof (cases "is_tag ''circle'' e")
    case False
    then show ?thesis using Cons.IH[of ds] by simp
  next
    case True
    show ?thesis
    proof (cases ds)
      case Nil
      then show ?thesis using True Cons.IH[of "[]"] by simp
    next
      case (Cons d r)
      then show ?thesis using True Cons.IH[of r]
        by (simp add: is_tag_def tag_set_dot set_dot_idem)
    qed
  qed
qed

lemma fresh_ok:
  "list_all2 (dot_ok c) (filter (is_tag ''circle'') (fresh_dots c n ds)) ds"
proof (induction ds arbitrary: n)
  case Nil
  then show ?case by simp
next
  case (Cons d ds)
  have "new_elem n ''circle'' (Some d) = (new_elem n ''circle'' (Some d))\<lparr> datum := Some d \<rparr>"
    by (simp add: new_elem_def)
  then have "dot_ok c (set_dot c d (new_elem n ''circle'' (Some d))) d"
    using set_dot_idem[of c d "new_elem n ''circle'' (Some d)"] by simp
  with Cons show ?case
    by (simp add: is_tag_def tag_set_dot new_elem_def)
qed

lemma draw_dots_ok:
  "list_all2 (dot_ok c) (filter (is_tag ''circle'') (bounds (draw_dots c D p))) D"
proof -
  let ?k = "length (filter (is_tag ''circle'') (bounds p))"
  have "list_all2 (dot_ok c) (filter (is_tag ''circle'') (bounds (draw_dots c D p)))
          (take ?k D @ drop ?k D)"
    unfolding bounds_draw_dots filter_append
    by (rule list_all2_appendI[OF reconcile_ok fresh_ok])
  then show ?thesis by simp
qed

lemma draw_dots_fixed:
  assumes "list_all2 (dot_ok c) (filter (is_tag ''circle'') (bounds p)) D"
  shows "draw_dots c D p = p"
proof -
  have len: "length (filter (is_tag ''circle'') (bounds p)) = length D"
    using assms by (rule list_all2_lengthD)
  have "bounds (draw_dots c D p) = bounds p"
    by (simp add: bounds_draw_dots len reconcile_fixed[OF assms])
  moreover have "next_id (draw_dots c D p) = next_id p"
    by (simp add: next_id_draw_dots len)
  moreover have "elsewhere (draw_dots c D p) = elsewhere p" "tooltip (draw_dots c D p) = tooltip p"
    by (simp_all add: draw_dots_entries)
  ultimately show ?thesis by simp
qed

lemma draw_dots_idem: "draw_dots c D (draw_dots c D p) = draw_dots c D p"
  by (rule draw_dots_fixed[OF draw_dots_ok])

section \<open>The scripts as a whole\<close>

lemma enter_slots_rebind:
  "map node (enter_slots (bind_nodes i (selectAll (is_tag ''circle'') cs) ds)) = rebind cs ds"
  by (induction cs arbitrary: ds i) (auto simp: selectAll_def split: list.splits)

lemma append_enter_plain:
  "length ds = length is \<Longrightarrow> map node (append_enter ''circle'' n (zip ds is)) = plain_dots n ds"
  by (induction ds "is" arbitrary: n rule: list_induct2) auto

lemma bounds_draw_dots_enter:
  "bounds (draw_dots_enter D p) =
     rebind (bounds p) D
       @ plain_dots (next_id p) (drop (length (filter (is_tag ''circle'') (bounds p))) D)"
  by (simp add: draw_dots_enter_def enter_append_def data_def Let_def enter_slots_rebind
        append_enter_plain selected_count)

lemma next_id_draw_dots_enter:
  "next_id (draw_dots_enter D p) =
     next_id p + (length D - length (filter (is_tag ''circle'') (bounds p)))"
  by (simp add: draw_dots_enter_def enter_append_def data_def Let_def selected_count)

lemma rest_draw_dots_enter:
  "elsewhere (draw_dots_enter D p) = elsewhere p \<and> tooltip (draw_dots_enter D p) = tooltip p"
  by (simp add: draw_dots_enter_def split_beta)

lemma circles_rebind: "length (filter (is_tag ''circle'') (rebind cs ds)) = length (filter (is_tag ''circle'') cs)"
  by (induction cs arbitrary: ds) (auto simp: is_tag_def split: list.splits)

lemma circles_plain: "map datum (filter (is_tag ''circle'') (plain_dots n ds)) = map Some ds"
  by (induction ds arbitrary: n) (auto simp: is_tag_def new_elem_def)

lemma rebind_append:
  "rebind (rebind cs ds @ xs) ds =
     rebind cs ds @ rebind xs (drop (length (filter (is_tag ''circle'') cs)) ds)"
  by (induction cs arbitrary: ds) (auto simp: is_tag_def split: list.splits)

lemma rebind_plain: "rebind (plain_dots n ds) ds = plain_dots n ds"
  by (induction ds arbitrary: n) (auto simp: is_tag_def new_elem_def)

lemma draw_dots_enter_idem: "draw_dots_enter D (draw_dots_enter D p) = draw_dots_enter D p"
proof -
  let ?k = "length (filter (is_tag ''circle'') (bounds p))"
  let ?q = "draw_dots_enter D p"
  have k2: "length (filter (is_tag ''circle'') (bounds ?q)) = ?k + (length D - ?k)"
    using arg_cong[OF circles_plain[of "next_id p" "drop ?k D"], of length]
    by (simp add: bounds_draw_dots_enter circles_rebind)
  have "bounds (draw_dots_enter D ?q) = bounds ?q"
    by (simp add: bounds_draw_dots_enter[of D ?q] k2)
       (simp add: bounds_draw_dots_enter[of D p] rebind_append rebind_plain)
  moreover have "next_id (draw_dots_enter D ?q) = next_id ?q"
    by (simp add: next_id_draw_dots_enter[of D ?q] k2)
  ultimately show ?thesis
    using rest_draw_dots_enter[of D ?q] by (simp add: page.equality)
qed

lemma draw_cells_entries:
  "draw_cells listen D p =
     p\<lparr> bounds := map (node \<circ> cell_entry listen)
                    (fst (join ''path'' (next_id p) (data (selectAll (has_class ''voronoi'') (bounds p)) D))),
        next_id := snd (join ''path'' (next_id p) (data (selectAll (has_class ''voronoi'') (bounds p)) D)) \<rparr>"
  by (simp add: draw_cells_def attr_def on_def split_beta Let_def comp_def cell_entry_def)

lemma cell_entry_Unselected: "cell_entry l (Unselected e) = Unselected e"
  by (simp add: cell_entry_def Let_def)

lemma tag_cell_entry: "tag (node (cell_entry l x)) = tag (node x)"
  by (cases x) (simp_all add: cell_entry_def Let_def)

lemma bind_nodes_none:
  "list_all (\<lambda>e. \<not> P e) cs \<Longrightarrow> bind_nodes i (selectAll P cs) ds = map Outside cs"
  by (induction cs) (simp_all add: selectAll_def)

lemma join_slots_Outside: "join_slots (map Outside cs) = map Unselected cs"
  by (induction cs) simp_all

lemma tag_append_enter: "list_all (\<lambda>x. tag (node x) = name) (append_enter name n ens)"
  by (induction ens arbitrary: n) (auto simp: new_elem_def)

lemma length_append_enter: "length (append_enter name n ens) = length ens"
  by (induction ens arbitrary: n) auto

lemma tag_new_cells: "list_all (is_tag ''path'') (new_cells l n D)"
  using tag_append_enter[of "''path''" n "zip D [0 ..< length D]"]
  by (simp add: new_cells_def list_all_iff is_tag_def tag_cell_entry)

lemma no_selected: "list_all (\<lambda>e. \<not> P e) cs \<Longrightarrow> filter P cs = []"
  by (induction cs) auto

lemma bounds_draw_cells:
  assumes "list_all (\<lambda>e. \<not> has_class ''voronoi'' e) (bounds p)"
  shows "bounds (draw_cells l D p) = bounds p @ new_cells l (next_id p) D"
  using assms
  by (simp add: draw_cells_entries join_def data_def Let_def selected_count bind_nodes_none
        join_slots_Outside no_selected new_cells_def comp_def cell_entry_Unselected)

lemma circles_new_cells: "filter (is_tag ''circle'') (new_cells l n D) = []"
proof -
  have "list_all (\<lambda>e. \<not> is_tag ''circle'' e) (new_cells l n D)"
    using tag_new_cells[of l n D] by (auto simp: list_all_iff is_tag_def)
  then show ?thesis by (rule no_selected)
qed

lemma next_id_draw_cells:
  assumes "list_all (\<lambda>e. \<not> has_class ''voronoi'' e) (bounds p)"
  shows "next_id (draw_cells l D p) = next_id p + length D"
  using assms
  by (simp add: draw_cells_entries join_def data_def Let_def selected_count no_selected)

lemma rest_draw_cells:
  "elsewhere (draw_cells l D p) = elsewhere p \<and> tooltip (draw_cells l D p) = tooltip p"
  by (simp add: draw_cells_entries)

lemma rest_draw_dots:
  "elsewhere (draw_dots c D p) = elsewhere p \<and> tooltip (draw_dots c D p) = tooltip p"
  by (simp add: draw_dots_entries)

lemma no_class_fresh_dots: "list_all (\<lambda>e. \<not> has_class cl e) (fresh_dots c n D)"
  by (induction D arbitrary: n) (simp_all add: has_class_def set_dot_def new_elem_def)

lemma bounds_draw_axis: "bounds (draw_axis p) = bounds p @ [axis_group (next_id p)]"
  by (simp add: draw_axis_def append_child_def axis_group_def)

lemma next_id_draw_axis: "next_id (draw_axis p) = Suc (next_id p)"
  by (simp add: draw_axis_def append_child_def)

lemma no_class_axis: "\<not> has_class cl (axis_group n)"
  by (simp add: has_class_def axis_group_def new_elem_def)

lemma tag_axis: "\<not> is_tag ''circle'' (axis_group n)"
  by (simp add: is_tag_def axis_group_def new_elem_def)

lemma circles_fresh_dots: "filter (is_tag ''circle'') (fresh_dots c n D) = fresh_dots c n D"
  by (induction D arbitrary: n) (simp_all add: is_tag_def tag_set_dot new_elem_def)

lemma bounds_drawScatter_001:
  "bounds (drawScatter_001 iw ih D p) =
     fresh_dots (make_chart margin_default iw ih D) (next_id p) D
       @ new_cells True (next_id p + length D) D
       @ [axis_group (next_id p + length D + length D),
          axis_group (Suc (next_id p + length D + length D))]"
proof -
  let ?c = "make_chart margin_default iw ih D"
  let ?p1 = "draw_dots ?c D (new_bounds p)"
  have b1: "bounds ?p1 = fresh_dots ?c (next_id p) D"
    by (simp add: bounds_draw_dots new_bounds_def)
  have n1: "next_id ?p1 = next_id p + length D"
    by (simp add: next_id_draw_dots new_bounds_def)
  have nv: "list_all (\<lambda>e. \<not> has_class ''voronoi'' e) (bounds ?p1)"
    by (simp add: b1 no_class_fresh_dots)
  show ?thesis
    by (simp add: drawScatter_001_def Let_def bounds_draw_axis next_id_draw_axis
          bounds_draw_cells[OF nv] next_id_draw_cells[OF nv] b1 n1)
qed

lemma circles_drawScatter_001:
  "filter (is_tag ''circle'') (bounds (drawScatter_001 iw ih D p)) =
     fresh_dots (make_chart margin_default iw ih D) (next_id p) D"
  by (simp add: bounds_drawScatter_001 circles_fresh_dots circles_new_cells tag_axis)

lemma bounds_drawScatter_004:
  "bounds (drawScatter_004 iw ih D p) =
     background (make_chart margin_wide iw ih D) (next_id p)
       # fresh_dots (make_chart margin_wide iw ih D) (Suc (next_id p)) D
       @ [axis_group (Suc (next_id p) + length D), axis_group (Suc (Suc (next_id p) + length D))]
       @ new_cells True (Suc (Suc (Suc (next_id p) + length D))) D"
proof -
  let ?c = "make_chart margin_wide iw ih D"
  let ?p0 = "append_child ''rect''
                [''width'' \<mapsto> ANum (Fin (width (dims ?c) - right (margin (dims ?c))
                                                - left (margin (dims ?c)))),
                 ''height'' \<mapsto> ANum (Fin (height (dims ?c) - top (margin (dims ?c))
                                                 - bottom (margin (dims ?c)))),
                 ''fill'' \<mapsto> AStr ''#eeeeee'']
                Map.empty (new_bounds p)"
  let ?p1 = "draw_dots ?c D ?p0"
  let ?p3 = "draw_axis (draw_axis ?p1)"
  have b0: "bounds ?p0 = [background ?c (next_id p)]" and n0: "next_id ?p0 = Suc (next_id p)"
    by (simp_all add: append_child_def new_bounds_def background_def)
  have nc: "\<not> is_tag ''circle'' (background ?c (next_id p))"
    by (simp add: background_def is_tag_def new_elem_def)
  have b1: "bounds ?p1 = background ?c (next_id p) # fresh_dots ?c (Suc (next_id p)) D"
    using nc by (simp add: bounds_draw_dots b0 n0)
  have n1: "next_id ?p1 = Suc (next_id p) + length D"
    using nc by (simp add: next_id_draw_dots b0 n0)
  have b3: "bounds ?p3 = background ?c (next_id p) # fresh_dots ?c (Suc (next_id p)) D
              @ [axis_group (Suc (next_id p) + length D), axis_group (Suc (Suc (next_id p) + length D))]"
    by (simp add: bounds_draw_axis next_id_draw_axis b1 n1)
  have n3: "next_id ?p3 = Suc (Suc (Suc (next_id p) + length D))"
    by (simp add: next_id_draw_axis n1)
  have nv: "list_all (\<lambda>e. \<not> has_class ''voronoi'' e) (bounds ?p3)"
    by (simp add: b3 no_class_fresh_dots no_class_axis) (simp add: has_class_def background_def new_elem_def)
  show ?thesis
    unfolding drawScatter_004_def Let_def
    by (simp only: bounds_draw_cells[OF nv] b3 n3) simp
qed

lemma circles_drawScatter_004:
  "filter (is_tag ''circle'') (bounds (drawScatter_004 iw ih D p)) =
     fresh_dots (make_chart margin_wide iw ih D) (Suc (next_id p)) D"
  by (simp add: bounds_drawScatter_004 circles_fresh_dots circles_new_cells tag_axis)
     (simp add: background_def is_tag_def new_elem_def)

lemma bounds_listen_cells: "bounds (listen_cells p) = map listen1 (bounds p)"
  by (simp add: listen_cells_def on_all_def selectAll_def comp_def listen1_def)

lemma tag_listen1: "tag (listen1 e) = tag e"
  by (simp add: listen1_def)

lemma listen1_other: "list_all (\<lambda>e. \<not> has_class ''voronoi'' e) es \<Longrightarrow> map listen1 es = es"
  by (induction es) (simp_all add: listen1_def)

lemma circles_listen_cells: "filter (is_tag ''circle'') (map listen1 (new_cells l n D)) = []"
proof -
  have "list_all (\<lambda>e. \<not> is_tag ''circle'' e) (map listen1 (new_cells l n D))"
    using tag_new_cells[of l n D] by (auto simp: list_all_iff is_tag_def tag_listen1)
  then show ?thesis by (rule no_selected)
qed

lemma bounds_drawScatter_005:
  "bounds (drawScatter_005 iw ih D p) =
     fresh_dots (make_chart margin_default iw ih D) (next_id p) D
       @ map listen1 (new_cells False (next_id p + length D) D)
       @ [axis_group (next_id p + length D + length D),
          axis_group (Suc (next_id p + length D + length D))]"
proof -
  let ?c = "make_chart margin_default iw ih D"
  let ?p1 = "draw_dots ?c D (new_bounds p)"
  have b1: "bounds ?p1 = fresh_dots ?c (next_id p) D"
    by (simp add: bounds_draw_dots new_bounds_def)
  have n1: "next_id ?p1 = next_id p + length D"
    by (simp add: next_id_draw_dots new_bounds_def)
  have nv: "list_all (\<lambda>e. \<not> has_class ''voronoi'' e) (bounds ?p1)"
    by (simp add: b1 no_class_fresh_dots)
  have ax: "listen1 (axis_group k) = axis_group k" for k
    by (simp add: listen1_def no_class_axis)
  show ?thesis
    by (simp add: drawScatter_005_def Let_def bounds_listen_cells bounds_draw_axis next_id_draw_axis
          bounds_draw_cells[OF nv] next_id_draw_cells[OF nv] b1 n1 ax
          listen1_other[OF no_class_fresh_dots])
qed

lemma circles_drawScatter_005:
  "filter (is_tag ''circle'') (bounds (drawScatter_005 iw ih D p)) =
     fresh_dots (make_chart margin_default iw ih D) (next_id p) D"
  by (simp add: bounds_drawScatter_005 circles_fresh_dots circles_listen_cells tag_axis)

lemma bounds_drawScatter_000: "bounds (drawScatter_000 iw ih D p) = plain_dots (next_id p) D"
  by (simp add: drawScatter_000_def bounds_draw_dots_enter new_bounds_def)

lemma circles_plain_dots: "filter (is_tag ''circle'') (plain_dots n D) = plain_dots n D"
  by (induction D arbitrary: n) (simp_all add: is_tag_def new_elem_def)

section \<open>Chart dimensions: the claim\<close>

text \<open>
  C4.  For every viewport \<open>(innerWidth, innerHeight)\<close> and every margin configuration \<open>m\<close>,
  the dimension calculator produces an outer width and an outer height that are both
  \<open>min innerWidth innerHeight\<close> times 0.9 (a square chart), a bounded width equal to the
  width minus the left and right margins, and a bounded height equal to the height minus
  the top and bottom margins.  No condition on the insets is needed.
\<close>

theorem chart_dimensions_square:
  "width (chart_dimensions m innerWidth innerHeight) = min innerWidth innerHeight * 0.9
   \<and> height (chart_dimensions m innerWidth innerHeight) = min innerWidth innerHeight * 0.9
   \<and> margin (chart_dimensions m innerWidth innerHeight) = m
   \<and> boundedWidth (chart_dimensions m innerWidth innerHeight)
       = width (chart_dimensions m innerWidth innerHeight) - left m - right m
   \<and> boundedHeight (chart_dimensions m innerWidth innerHeight)
       = height (chart_dimensions m innerWidth innerHeight) - top m - bottom m"
  by (simp add: chart_dimensions_def d3_min_def Let_def min_def)

section \<open>The render pipeline: lemmas and claims\<close>

lemma dot_ok_view:
  assumes "dot_ok c e d"
  shows "datum e = Some d"
    and "attrs e ''cx'' = Some (ANum (scale_apply (xS c) (xAccessor d)))"
    and "attrs e ''cy'' = Some (ANum (scale_apply (yS c) (yAccessor d)))"
proof -
  have e: "set_dot c d (e\<lparr> datum := Some d \<rparr>) = e" using assms by (simp add: dot_ok_def)
  show "datum e = Some d" using arg_cong[OF e, of datum] by (simp add: set_dot_def)
  show "attrs e ''cx'' = Some (ANum (scale_apply (xS c) (xAccessor d)))"
    using arg_cong[OF e, of "\<lambda>x. attrs x ''cx''"] by (simp add: set_dot_def)
  show "attrs e ''cy'' = Some (ANum (scale_apply (yS c) (yAccessor d)))"
    using arg_cong[OF e, of "\<lambda>x. attrs x ''cy''"] by (simp add: set_dot_def)
qed

lemma positions_of_ok:
  "list_all2 (dot_ok c) es D \<Longrightarrow>
   map (\<lambda>e. (datum e, attrs e ''cx'', attrs e ''cy'')) es =
   map (\<lambda>r. (Some r, Some (ANum (scale_apply (xS c) (xAccessor r))),
                Some (ANum (scale_apply (yS c) (yAccessor r))))) D"
  by (induction rule: list_all2_induct) (simp_all add: dot_ok_view)

lemma positions_fresh_dots:
  "map (\<lambda>e. (datum e, attrs e ''cx'', attrs e ''cy'')) (fresh_dots c n D) =
   map (\<lambda>r. (Some r, Some (ANum (scale_apply (xS c) (xAccessor r))),
                Some (ANum (scale_apply (yS c) (yAccessor r))))) D"
  using positions_of_ok[OF fresh_ok[of c n D]] by (simp add: circles_fresh_dots)

lemma make_chart_scales:
  "xS (make_chart m iw ih D) = xScale (chart_dimensions m iw ih) D"
  "yS (make_chart m iw ih D) = yScale (chart_dimensions m iw ih) D"
  by (simp_all add: make_chart_def Let_def)

text \<open>
  C1.  For every dataset \<open>D\<close>, after the render pipeline (the
  \<^verbatim>\<open>selectAll\<close>/\<^verbatim>\<open>data\<close>/\<^verbatim>\<open>join\<close> of circles) the circles of the group are as many as the
  records, and the \<open>i\<close>-th circle is bound to exactly the \<open>i\<close>-th record.  This holds for
  the join of the dots on any page, and for each of the four scripts as a whole, where
  the group is new and \<^verbatim>\<open>part_000\<close> appends the entering circles.
\<close>

theorem marks_match_records:
  "map datum (filter (is_tag ''circle'') (bounds (draw_dots c D p))) = map Some D
   \<and> length (filter (is_tag ''circle'') (bounds (draw_dots c D p))) = length D
   \<and> map datum (filter (is_tag ''circle'') (bounds (drawScatter_000 iw ih D p))) = map Some D
   \<and> map datum (filter (is_tag ''circle'') (bounds (drawScatter_001 iw ih D p))) = map Some D
   \<and> map datum (filter (is_tag ''circle'') (bounds (drawScatter_004 iw ih D p))) = map Some D
   \<and> map datum (filter (is_tag ''circle'') (bounds (drawScatter_005 iw ih D p))) = map Some D"
proof -
  have "length (map datum (filter (is_tag ''circle'') (bounds (draw_dots c D p)))) = length (map Some D)"
    by (simp only: circles_draw_dots)
  then have "length (filter (is_tag ''circle'') (bounds (draw_dots c D p))) = length D"
    by simp
  moreover have "map datum (fresh_dots c' n D) = map Some D" for c' n
    using circles_fresh[of c' n D] by (simp add: circles_fresh_dots)
  moreover have "map datum (plain_dots n D) = map Some D" for n
    using circles_plain[of n D] by (simp add: circles_plain_dots)
  ultimately show ?thesis
    by (simp add: circles_draw_dots circles_drawScatter_001 circles_drawScatter_004
          circles_drawScatter_005 bounds_drawScatter_000 circles_plain_dots)
qed

text \<open>
  C2.  For every record \<open>r\<close> of the joined dataset, the circle bound to \<open>r\<close> has the
  attribute \<open>cx\<close> equal to the x scale applied to the \<open>dewPoint\<close> field of \<open>r\<close> and the
  attribute \<open>cy\<close> equal to the y scale applied to its \<open>humidity\<close> field: the list of
  circles, read as (bound record, \<open>cx\<close>, \<open>cy\<close>), is the list of records mapped to their
  positions.  The equality is exact, since the attribute is the value the scale
  returned.
\<close>

theorem mark_positions:
  "map (\<lambda>e. (datum e, attrs e ''cx'', attrs e ''cy''))
       (filter (is_tag ''circle'') (bounds (draw_dots (make_chart m iw ih D) D p)))
     = map (\<lambda>r. (Some r,
                    Some (ANum (scale_apply (xScale (chart_dimensions m iw ih) D) (dewPoint r))),
                    Some (ANum (scale_apply (yScale (chart_dimensions m iw ih) D) (humidity r))))) D
   \<and> map (\<lambda>e. (datum e, attrs e ''cx'', attrs e ''cy''))
       (filter (is_tag ''circle'') (bounds (drawScatter_001 iw ih D p)))
     = map (\<lambda>r. (Some r,
                    Some (ANum (scale_apply (xScale (chart_dimensions margin_default iw ih) D) (dewPoint r))),
                    Some (ANum (scale_apply (yScale (chart_dimensions margin_default iw ih) D) (humidity r))))) D
   \<and> map (\<lambda>e. (datum e, attrs e ''cx'', attrs e ''cy''))
       (filter (is_tag ''circle'') (bounds (drawScatter_004 iw ih D p)))
     = map (\<lambda>r. (Some r,
                    Some (ANum (scale_apply (xScale (chart_dimensions margin_wide iw ih) D) (dewPoint r))),
                    Some (ANum (scale_apply (yScale (chart_dimensions margin_wide iw ih) D) (humidity r))))) D
   \<and> map (\<lambda>e. (datum e, attrs e ''cx'', attrs e ''cy''))
       (filter (is_tag ''circle'') (bounds (drawScatter_005 iw ih D p)))
     = map (\<lambda>r. (Some r,
                    Some (ANum (scale_apply (xScale (chart_dimensions margin_default iw ih) D) (dewPoint r))),
                    Some (ANum (scale_apply (yScale (chart_dimensions margin_default iw ih) D) (humidity r))))) D"
  using positions_of_ok[OF draw_dots_ok[of "make_chart m iw ih D" D p]]
  by (simp add: circles_drawScatter_001 circles_drawScatter_004 circles_drawScatter_005
        positions_fresh_dots make_chart_scales xAccessor_def yAccessor_def)

text \<open>
  C3.  For every dataset \<open>D\<close>, running the render pipeline a second time on the same
  group with the same \<open>D\<close> changes nothing: the page after two runs is the page after one
  run, with the same elements (identities included) and no new identity used.  This
  holds for the join of \<^verbatim>\<open>part_001\<close>, \<^verbatim>\<open>part_004\<close> and \<^verbatim>\<open>part_005\<close> and for the
  enter/append of \<^verbatim>\<open>part_000\<close>.
\<close>

theorem render_twice_is_once:
  "draw_dots c D (draw_dots c D p) = draw_dots c D p
   \<and> draw_dots_enter D (draw_dots_enter D p) = draw_dots_enter D p"
  by (simp add: draw_dots_idem draw_dots_enter_idem)

section \<open>Hover handlers: lemmas and claims\<close>

lemma bounds_onMouseEnter: "bounds (onMouseEnter c d p) = bounds p @ [highlight c (next_id p) d]"
  by (simp add: onMouseEnter_def dayDot_def append_child_def highlight_def Let_def)

lemma next_id_onMouseEnter: "next_id (onMouseEnter c d p) = Suc (next_id p)"
  by (simp add: onMouseEnter_def dayDot_def append_child_def Let_def)

lemma elsewhere_onMouseEnter: "elsewhere (onMouseEnter c d p) = elsewhere p"
  by (simp add: onMouseEnter_def dayDot_def append_child_def Let_def)

lemma opacity_onMouseEnter: "opacity (tooltip (onMouseEnter c d p)) = Some 1"
  by (simp add: onMouseEnter_def Let_def)

lemma bounds_enters: "bounds (enters c ds p) = bounds p @ highlights c (next_id p) ds"
  unfolding enters_def
  by (induction ds arbitrary: p) (simp_all add: bounds_onMouseEnter next_id_onMouseEnter)

lemma elsewhere_enters: "elsewhere (enters c ds p) = elsewhere p"
  unfolding enters_def
  by (induction ds arbitrary: p) (simp_all add: elsewhere_onMouseEnter)

lemma length_highlights: "length (highlights c n ds) = length ds"
  by (induction ds arbitrary: n) simp_all

lemma highlight_inert:
  "has_class ''tooltipDot'' (highlight c n d)
   \<and> is_tag ''circle'' (highlight c n d)
   \<and> styles (highlight c n d) ''pointer-events'' = Some ''none''
   \<and> listeners (highlight c n d) = []
   \<and> \<not> receives ev (highlight c n d)"
  by (simp add: highlight_def has_class_def is_tag_def receives_def new_elem_def)

lemma highlights_inert:
  "list_all (\<lambda>e. has_class ''tooltipDot'' e \<and> is_tag ''circle'' e
                  \<and> styles e ''pointer-events'' = Some ''none''
                  \<and> listeners e = [] \<and> \<not> receives ev e) (highlights c n ds)"
  by (induction ds arbitrary: n) (simp_all add: highlight_inert)

lemma filter_highlights: "filter (has_class ''tooltipDot'') (highlights c n ds) = highlights c n ds"
  by (induction ds arbitrary: n) (simp_all add: highlight_inert)

lemma count_enters:
  "length (tooltipDots (enters c ds p)) = length (tooltipDots p) + length ds"
  by (simp add: tooltipDots_def bounds_enters elsewhere_enters filter_highlights length_highlights)

lemma tooltipDots_removed: "tooltipDots (remove_tooltipDots p) = []"
  by (simp add: tooltipDots_def remove_tooltipDots_def)

lemma no_dots_after_leave_004: "tooltipDots (onMouseLeave_004 p) = []"
  by (simp add: onMouseLeave_004_def tooltipDots_removed)

lemma idle_after_leave_005: "tooltipDots (onMouseLeave_005 p) = [] \<and> opacity (tooltip (onMouseLeave_005 p)) = Some 0"
  by (simp add: onMouseLeave_005_def tooltipDots_removed) (simp add: remove_tooltipDots_def)

lemma tooltip_after_leave_004: "tooltip (onMouseLeave_004 p) = tooltip p"
  by (simp add: onMouseLeave_004_def remove_tooltipDots_def)

lemma idle_after_enter_leave_005:
  "opacity (tooltip (onMouseLeave_005 (onMouseEnter c d p))) = Some 0
   \<and> tooltipDots (onMouseLeave_005 (onMouseEnter c d p)) = []"
  by (simp add: idle_after_leave_005)

lemma hidden_after_enter_leave_001:
  "opacity (tooltip (onMouseLeave_001 (onMouseEnter_001 c d p))) = Some 0"
  by (simp add: onMouseLeave_001_def)

text \<open>
  C10.  Each pointer-enter appends one new highlight mark to the group and removes
  nothing: after \<open>n\<close> pointer-enter events without a pointer-leave the group is the old
  group followed by \<open>n\<close> new elements, and the document holds \<open>n\<close> more highlight marks.
  A pointer-leave (of \<^verbatim>\<open>part_004\<close> and of \<^verbatim>\<open>part_005\<close>) removes every element of class
  \<^verbatim>\<open>tooltipDot\<close> of the whole document, so that no highlight mark is left on any page
  \<open>q\<close>, however many pointer-enter events came before.  Every highlight mark is created
  with pointer events switched off and without a listener, so that it is never the target
  of an enter or leave event.
\<close>

theorem highlight_marks_accumulate_until_leave:
  "take (length (bounds p)) (bounds (enters c ds p)) = bounds p
   \<and> length (bounds (enters c ds p)) = length (bounds p) + length ds
   \<and> elsewhere (enters c ds p) = elsewhere p
   \<and> length (tooltipDots (enters c ds p)) = length (tooltipDots p) + length ds
   \<and> tooltipDots (onMouseLeave_004 q) = []
   \<and> tooltipDots (onMouseLeave_005 q) = []
   \<and> length (tooltipDots (onMouseLeave_004 (enters c ds p))) = 0
   \<and> length (tooltipDots (onMouseLeave_005 (enters c ds p))) = 0
   \<and> list_all (\<lambda>e. has_class ''tooltipDot'' e
                    \<and> styles e ''pointer-events'' = Some ''none''
                    \<and> listeners e = []
                    \<and> \<not> receives ''mouseenter'' e \<and> \<not> receives ''mouseleave'' e)
        (drop (length (bounds p)) (bounds (enters c ds p)))"
proof -
  have "list_all (\<lambda>e. has_class ''tooltipDot'' e
                    \<and> styles e ''pointer-events'' = Some ''none''
                    \<and> listeners e = []
                    \<and> \<not> receives ''mouseenter'' e \<and> \<not> receives ''mouseleave'' e)
        (highlights c (next_id p) ds)"
    using highlights_inert[of "''mouseenter''" c "next_id p" ds]
          highlights_inert[of "''mouseleave''" c "next_id p" ds]
    by (simp add: list_all_iff)
  then show ?thesis
    by (simp add: bounds_enters elsewhere_enters count_enters no_dots_after_leave_004 idle_after_leave_005 length_highlights)
qed

text \<open>
  C8.  After a pointer-enter for a record \<open>d\<close> followed by a pointer-leave the highlight
  marks are gone, but in \<^verbatim>\<open>part_004\<close> the tooltip is still shown: its opacity is the 1 that
  \<^verbatim>\<open>onMouseEnter\<close> set, because the statement that would set it to 0 is commented out in
  \<^verbatim>\<open>onMouseLeave\<close>.  The handlers of \<^verbatim>\<open>part_005\<close> and \<^verbatim>\<open>part_001\<close> do hide the tooltip
  (lemmas \<open>idle_after_enter_leave_005\<close> and \<open>hidden_after_enter_leave_001\<close>).
\<close>

theorem leave_004_keeps_tooltip_shown:
  "opacity (tooltip (onMouseLeave_004 (onMouseEnter c d p))) = Some 1
   \<and> tooltipDots (onMouseLeave_004 (onMouseEnter c d p)) = []"
  by (simp add: tooltip_after_leave_004 opacity_onMouseEnter no_dots_after_leave_004)

section \<open>Scales: lemmas and claims\<close>

lemma sqrt_le_iff_sq: "0 \<le> x \<Longrightarrow> 0 \<le> y \<Longrightarrow> (sqrt y \<le> x) = (y \<le> x * x)"
  by (metis real_sqrt_le_iff real_sqrt_mult_self abs_of_nonneg real_sqrt_abs2)

lemma tick_factor_eval:
  "0 \<le> e \<Longrightarrow> tick_factor e = (if 50 \<le> e * e then 10 else if 10 \<le> e * e then 5 else if 2 \<le> e * e then 2 else 1)"
  by (simp add: tick_factor_def e10_def e5_def e2_def sqrt_le_iff_sq)


lemma pow10_powr: "pow10 k = 10 powr (of_int k)"
proof (cases "k \<ge> 0")
  case True
  then show ?thesis by (simp add: pow10_def powr_realpow[symmetric])
next
  case False
  then have "pow10 k = 1 / 10 powr (real (nat (- k)))" by (simp add: pow10_def powr_realpow[symmetric])
  also have "\<dots> = 10 powr (- real (nat (- k)))" by (simp add: powr_minus_divide)
  also have "- real (nat (- k)) = of_int k" using False by simp
  finally show ?thesis .
qed

lemma pow10_pos: "0 < pow10 k"
  by (simp add: pow10_powr)

lemma floor_log10:
  assumes "pow10 k \<le> x" "x < pow10 (k + 1)"
  shows "\<lfloor>log 10 x\<rfloor> = k"
proof -
  have x: "0 < x" using assms(1) pow10_pos[of k] by linarith
  have "of_int k \<le> log 10 x" using assms(1) x by (simp add: pow10_powr le_log_iff)
  moreover have "log 10 x < of_int k + 1" using assms(2) x by (simp add: pow10_powr log_less_iff add.commute)
  ultimately show ?thesis by (simp add: floor_unique)
qed

lemma tickIncrement_eval:
  assumes "start < stop" "pow10 k \<le> (stop - start) / 10" "(stop - start) / 10 < pow10 (k + 1)"
  shows "tickIncrement (Fin start) (Fin stop) 10 =
           (if k \<ge> 0 then Step (tick_factor ((stop - start) / 10 / pow10 k) * pow10 k)
            else Step (- pow10 (- k) / tick_factor ((stop - start) / 10 / pow10 k)))"
  using assms by (simp add: Let_def floor_log10[OF assms(2,3)])


lemma nice_loop_same:
  "0 < n \<Longrightarrow> same_step (tickIncrement a b c) pre \<Longrightarrow> nice_loop n pre a b c = Some (a, b)"
  by (cases n) (simp_all add: Let_def del: tickIncrement.simps)

lemma nice_loop_pos:
  "0 < n \<Longrightarrow> tickIncrement a b c = Step s \<Longrightarrow> \<not> same_step (Step s) pre \<Longrightarrow> 0 < s \<Longrightarrow>
   nice_loop n pre a b c =
     nice_loop (n - 1) (Some (Step s)) (js_map (\<lambda>x. of_int \<lfloor>x / s\<rfloor> * s) a)
       (js_map (\<lambda>x. of_int \<lceil>x / s\<rceil> * s) b) c"
  by (cases n) (simp_all add: Let_def del: tickIncrement.simps)

lemma nice_loop_neg:
  "0 < n \<Longrightarrow> tickIncrement a b c = Step s \<Longrightarrow> \<not> same_step (Step s) pre \<Longrightarrow> s < 0 \<Longrightarrow>
   nice_loop n pre a b c =
     nice_loop (n - 1) (Some (Step s)) (js_map (\<lambda>x. of_int \<lceil>x * s\<rceil> / s) a)
       (js_map (\<lambda>x. of_int \<lfloor>x * s\<rfloor> / s) b) c"
  by (cases n) (simp_all add: Let_def del: tickIncrement.simps)

lemma same_step_NaN: "\<not> same_step NaNStep pre"
  by (cases pre) simp_all

lemma nice_loop_NaN: "nice_loop n pre NaN NaN c = None"
  by (cases n) (simp_all add: Let_def same_step_NaN)









lemma d3_extent_empty: "d3_extent [] f = None"
  by (simp add: d3_extent_def)


lemma scale_apply_NaN: "domain s = (NaN, NaN) \<Longrightarrow> scale_apply s x = NaN"
  by (simp add: scale_apply_def bimap_def split_beta)

lemma nice_NaN: "domain s = (NaN, NaN) \<Longrightarrow> nice s = s"
  by (simp add: nice_def nice_loop_NaN del: nice_loop.simps)




text \<open>
  The scale in rounded arithmetic: for an ordered domain and a range that ends at 0 it
  never increases, and it maps the ends of the domain to the ends of the range.
\<close>

lemma normalize_fl_exact: "normalize_fl (\<lambda>v. v) a b x = normalize a b x"
  by (cases a; cases b) simp_all

lemma interpolateNumber_fl_exact: "interpolateNumber_fl (\<lambda>v. v) a b = interpolateNumber a b"
  by (rule ext) (simp add: interpolateNumber_fl_def interpolateNumber_def)

lemma scale_apply_fl_exact: "scale_apply_fl (\<lambda>v. v) s x = scale_apply s x"
  by (simp add: scale_apply_fl_def scale_apply_def bimap_def normalize_fl_exact
        interpolateNumber_fl_exact split_beta)



lemma scale_apply_fl_ordered:
  assumes "domain s = (Fin e0, Fin e1)" "e0 \<le> e1" "range s = (r0, r1)"
  shows "scale_apply_fl rnd s x =
           (if rnd (e1 - e0) \<noteq> 0
            then Fin (interpolateNumber_fl rnd r0 r1 (rnd (rnd (x - e0) / rnd (e1 - e0))))
            else Fin (interpolateNumber_fl rnd r0 r1 0.5))"
  using assms by (simp add: scale_apply_fl_def)









text \<open>
  Why the order of C5 is not strict: with the rounding to multiples of \<open>1/1024\<close> the
  humidities 0.5 and 0.5001 get the same coordinate.
\<close>

lemma rounding_merges_close_positions:
  "scale_apply_fl round_to_grid \<lparr> domain = (Fin 0.5, Fin 0.8), range = (660, 0) \<rparr> 0.5 = Fin 660
   \<and> scale_apply_fl round_to_grid \<lparr> domain = (Fin 0.5, Fin 0.8), range = (660, 0) \<rparr> 0.5001 = Fin 660"
proof -
  have le: "(0.5::real) \<le> 0.8" by simp
  show ?thesis
    by (simp add: scale_apply_fl_ordered[OF _ le, of _ 660 0] interpolateNumber_fl_def
          round_to_grid_def)
qed


lemma tickIncrement_dewPoint: "tickIncrement (Fin 11.8) (Fin 77.26) 10 = Step 5"
  using tickIncrement_eval[of "11.8" "77.26" 0]
  by (simp add: pow10_def tick_factor_eval)

lemma tickIncrement_dewPoint_niced: "tickIncrement (Fin 10) (Fin 80) 10 = Step 5"
  using tickIncrement_eval[of 10 80 0]
  by (simp add: pow10_def tick_factor_eval)

lemma nice_loop_dewPoint: "nice_loop 10 None (Fin 11.8) (Fin 77.26) 10 = Some (Fin 10, Fin 80)"
proof -
  have "nice_loop 10 None (Fin 11.8) (Fin 77.26) 10 = nice_loop (10 - 1) (Some (Step 5)) (Fin 10) (Fin 80) 10"
    using nice_loop_pos[OF _ tickIncrement_dewPoint, of 10 None] by simp
  also have "\<dots> = Some (Fin 10, Fin 80)"
    using nice_loop_same[of "10 - 1" "Fin 10" "Fin 80" 10 "Some (Step 5)"] tickIncrement_dewPoint_niced
    by simp
  finally show ?thesis .
qed

text \<open>
  C6.  For the domain \<open>[11.8, 77.26]\<close> the niceing rule chooses the step 5 and produces the
  domain \<open>[10, 80]\<close>: both bounds are integer multiples of the step (2 and 16 times 5), the
  step of the niced domain is again 5, and the niced domain contains the original
  extent.  The same holds for the x scale of a dataset whose dew points range from 11.8
  to 77.26.
\<close>

theorem nice_dewPoint_domain:
  "domain (nice \<lparr> domain = (Fin 11.8, Fin 77.26), range = r \<rparr>) = (Fin 10, Fin 80)
   \<and> tickIncrement (Fin 11.8) (Fin 77.26) 10 = Step 5
   \<and> tickIncrement (Fin 10) (Fin 80) 10 = Step 5
   \<and> Fin 10 = Fin (of_int 2 * 5) \<and> Fin 80 = Fin (of_int 16 * 5)
   \<and> js_lt (Fin 10) (Fin 11.8) \<and> js_lt (Fin 77.26) (Fin 80)
   \<and> domain (xScale dm [\<lparr> dewPoint = 11.8, humidity = h1, cloudCover = c1, date = s1 \<rparr>,
                          \<lparr> dewPoint = 77.26, humidity = h2, cloudCover = c2, date = s2 \<rparr>])
       = (Fin 10, Fin 80)"
  using nice_loop_dewPoint tickIncrement_dewPoint tickIncrement_dewPoint_niced
  by (simp add: nice_def xScale_def set_range_def set_domain_def d3_extent_def xAccessor_def
        del: nice_loop.simps tickIncrement.simps)

text \<open>
  The second result that the tutorial text records: the humidity extent \<open>[0.27, 0.97]\<close>
  is niced to \<open>[0.2, 1]\<close>, in three rounds with the steps 0.05, 0.1 and 0.1.
\<close>

lemma nice_humidity_tutorial:
  "domain (nice \<lparr> domain = (Fin 0.27, Fin 0.97), range = r \<rparr>) = (Fin 0.2, Fin 1)"
proof -
  have t1: "tickIncrement (Fin 0.27) (Fin 0.97) 10 = Step (- 20)"
    using tickIncrement_eval[of "0.27" "0.97" "- 2"] by (simp add: pow10_def tick_factor_eval)
  have t2: "tickIncrement (Fin 0.25) (Fin 1) 10 = Step (- 10)"
    using tickIncrement_eval[of "0.25" 1 "- 2"] by (simp add: pow10_def tick_factor_eval)
  have t3: "tickIncrement (Fin 0.2) (Fin 1) 10 = Step (- 10)"
    using tickIncrement_eval[of "0.2" 1 "- 2"] by (simp add: pow10_def tick_factor_eval)
  have "nice_loop 10 None (Fin 0.27) (Fin 0.97) 10 = nice_loop (10 - 1) (Some (Step (- 20))) (Fin 0.25) (Fin 1) 10"
    using nice_loop_neg[OF _ t1, of 10 None] by simp
  also have "\<dots> = nice_loop (10 - 1 - 1) (Some (Step (- 10))) (Fin 0.2) (Fin 1) 10"
    using nice_loop_neg[OF _ t2, of "10 - 1" "Some (Step (- 20))"] by simp
  also have "\<dots> = Some (Fin 0.2, Fin 1)"
    using nice_loop_same[of "10 - 1 - 1" "Fin 0.2" "Fin 1" 10 "Some (Step (- 10))"] t3 by simp
  finally show ?thesis
    by (simp add: nice_def del: nice_loop.simps tickIncrement.simps)
qed

lemma empty_domains:
  "domain (xScale dm []) = (NaN, NaN) \<and> domain (yScale dm []) = (NaN, NaN)
   \<and> domain (colorScale []) = (NaN, NaN)"
  by (simp add: xScale_def yScale_def colorScale_def d3_extent_empty nice_NaN set_range_def set_domain_def)

text \<open>
  C7 (amended).  When the dataset is empty, scale construction reports no error and uses
  no default domain: the extent is undefined, the domain of each position scale is
  \<open>[NaN, NaN]\<close> (niceing leaves it so), and each position scale returns \<open>NaN\<close> for
  every number \<open>v\<close>.
\<close>

theorem empty_dataset_scales_yield_NaN:
  "d3_extent ([] :: weather list) xAccessor = None
   \<and> domain (xScale dm []) = (NaN, NaN)
   \<and> domain (yScale dm []) = (NaN, NaN)
   \<and> scale_apply (xScale dm []) v = NaN
   \<and> scale_apply (yScale dm []) v = NaN"
  by (simp add: empty_domains scale_apply_NaN d3_extent_empty)

text \<open>
  C7 as stated fails for the empty dataset: the x scale applied to 40 and the y scale
  applied to 0.5 are \<open>NaN\<close>.
\<close>

theorem empty_dataset_counterexample:
  "scale_apply (xScale (chart_dimensions margin_default 1000 800) []) 40 = NaN
   \<and> scale_apply (yScale (chart_dimensions margin_default 1000 800) []) 0.5 = NaN"
  by (simp add: empty_domains scale_apply_NaN)

section \<open>The line chart: the claim\<close>

lemma parse_ymd_example:
  "parse_ymd ''2019/01/01'' = Some \<lparr> fullYear = 2019, monthIndex = 0, dayOfMonth = 1 \<rparr>"
  by (simp add: parse_ymd_def parse_number_def parse_literal_def is_digit_def is_space_def
        number_value_def digit_value_def Let_def)

text \<open>
  C9 as stated fails for the line chart: after the first loop the date of the value is
  a date object, so the array is not the array that was loaded.
\<close>

theorem line_chart_mutates_records_counterexample:
  "parse_dataset [example_company]
     = [\<lparr> values = [\<lparr> p_date = DateObject \<lparr> fullYear = 2019, monthIndex = 0, dayOfMonth = 1 \<rparr>,
                       p_close = 10 \<rparr>] \<rparr>]
   \<and> parse_dataset [example_company] \<noteq> [example_company]"
  by (simp add: parse_dataset_def parse_point_def example_company_def parse_ymd_example)

lemma parseTime_not_string: "parseTime v \<noteq> DateString s"
  by (cases v) (simp_all split: option.splits)

lemma parseTime_is_string: "\<not> is_string (parseTime v)"
  by (cases v) (simp_all split: option.splits)

text \<open>
  C9 (amended).  The first loop of the line and area chart samples overwrites the date
  of every value with what \<^verbatim>\<open>parseTime\<close> returns for it, which is never the string that was
  loaded, and leaves the closing price, the number of companies and the number of values
  of each company as they were.  The scatterplot scripts do not modify a record: after
  the join every circle is bound to the record of the array as loaded, and a pointer-enter
  changes the bound record of no element.
\<close>

theorem records_changed_only_by_line_chart_parsing:
  "length (parse_dataset ds) = length ds
   \<and> map (\<lambda>co. length (values co)) (parse_dataset ds) = map (\<lambda>co. length (values co)) ds
   \<and> map (\<lambda>co. map p_close (values co)) (parse_dataset ds) = map (\<lambda>co. map p_close (values co)) ds
   \<and> map (\<lambda>co. map p_date (values co)) (parse_dataset ds)
       = map (\<lambda>co. map (\<lambda>d. parseTime (p_date d)) (values co)) ds
   \<and> list_all (\<lambda>co. list_all (\<lambda>d. \<not> is_string (p_date d)) (values co)) (parse_dataset ds)
   \<and> map datum (filter (is_tag ''circle'') (bounds (draw_dots c D p))) = map Some D
   \<and> map datum (take (length (bounds q)) (bounds (onMouseEnter c d q))) = map datum (bounds q)"
  by (simp add: parse_dataset_def parse_point_def comp_def list_all_iff parseTime_is_string
        circles_draw_dots bounds_onMouseEnter)

end
